theory Spec2Isabelle
  imports Main "HOL-Library.Sublist"
begin

section \<open>Python string primitives\<close>

text \<open>
  A Python \<open>str\<close> is modelled as a HOL \<open>string\<close>; a \<open>char\<close> stands for a code
  point below 256. On these code points \<open>str.isspace\<close> holds for the ASCII controls
  9 to 13 and 28 to 31, the blank, U+0085 and U+00A0, and \<open>str.lower\<close> adds 32 to the
  capital letters of ASCII and of Latin-1 (U+00C0 to U+00DE, the sign U+00D7 excepted).
\<close>

definition isspace :: "char \<Rightarrow> bool" where
  "isspace c = (of_char c \<in> {9, 10, 11, 12, 13, 28, 29, 30, 31, 32, 133, 160 :: nat})"

definition lower_char :: "char \<Rightarrow> char" where
  "lower_char c =
     (let n = (of_char c :: nat) in
      if (65 \<le> n \<and> n \<le> 90) \<or> (192 \<le> n \<and> n \<le> 222 \<and> n \<noteq> 215)
      then char_of (n + 32) else c)"

definition py_lower :: "string \<Rightarrow> string" where
  "py_lower s = map lower_char s"

definition py_lstrip :: "string \<Rightarrow> string" where
  "py_lstrip s = dropWhile isspace s"

definition py_rstrip :: "string \<Rightarrow> string" where
  "py_rstrip s = rev (dropWhile isspace (rev s))"

definition py_strip :: "string \<Rightarrow> string" where
  "py_strip s = py_rstrip (py_lstrip s)"

text \<open>
  \<open>s.replace(old, new)\<close>: the occurrences of \<open>old\<close> are found from the left and do
  not overlap; an empty \<open>old\<close> matches before every character and at the end.
\<close>

function py_replace :: "string \<Rightarrow> string \<Rightarrow> string \<Rightarrow> string" where
  "py_replace old new [] = (if old = [] then new else [])"
| "py_replace old new (c # cs) =
     (if old = [] then new @ c # py_replace old new cs
      else if prefix old (c # cs)
        then new @ py_replace old new (drop (length old) (c # cs))
      else c # py_replace old new cs)"
  by pat_completeness auto
termination
  by (relation "measure (\<lambda>(old, new, s). length s)") auto

definition py_endswith :: "string \<Rightarrow> string \<Rightarrow> bool" where
  "py_endswith s suffix_text = suffix suffix_text s"

text \<open>\<open>s.split(sep)\<close> and \<open>sep.join(parts)\<close>, for a separator of one character.\<close>

fun py_split :: "char \<Rightarrow> string \<Rightarrow> string list" where
  "py_split sep [] = [[]]"
| "py_split sep (c # cs) =
     (if c = sep then [] # py_split sep cs
      else (case py_split sep cs of [] \<Rightarrow> [[c]] | part # parts \<Rightarrow> (c # part) # parts))"

fun py_join :: "string \<Rightarrow> string list \<Rightarrow> string" where
  "py_join sep [] = []"
| "py_join sep [x] = x"
| "py_join sep (x # y # ys) = x @ sep @ py_join sep (y # ys)"

section \<open>The path functions of \<open>os.path\<close> (POSIX flavour)\<close>

text \<open>
  The program calls \<open>os.path.abspath\<close> and \<open>os.path.basename\<close>. They are modelled after
  the POSIX implementation of the Python library: \<open>abspath\<close> joins a relative path to
  the working directory and normalises the result textually.
\<close>

definition os_path_join :: "string \<Rightarrow> string \<Rightarrow> string" where
  "os_path_join a b =
     (if prefix ''/'' b then b
      else if a = [] \<or> suffix ''/'' a then a @ b
      else a @ ''/'' @ b)"

text \<open>
  The loop of \<open>normpath\<close> over the components (\<open>name\<close> is the loop variable
  \<open>comp\<close> of the library), \<open>new_comps\<close> being its accumulator.
\<close>

fun norm_comps :: "nat \<Rightarrow> string list \<Rightarrow> string list \<Rightarrow> string list" where
  "norm_comps initial_slashes [] new_comps = new_comps"
| "norm_comps initial_slashes (name # comps) new_comps =
     (if name = [] \<or> name = ''.'' then norm_comps initial_slashes comps new_comps
      else if name \<noteq> ''..'' \<or> (initial_slashes = 0 \<and> new_comps = [])
              \<or> (new_comps \<noteq> [] \<and> last new_comps = ''..'')
        then norm_comps initial_slashes comps (new_comps @ [name])
      else if new_comps \<noteq> [] then norm_comps initial_slashes comps (butlast new_comps)
      else norm_comps initial_slashes comps new_comps)"

definition os_path_normpath :: "string \<Rightarrow> string" where
  "os_path_normpath path =
     (if path = [] then ''.''
      else
        let initial_slashes =
              (if prefix ''/'' path
               then (if prefix ''//'' path \<and> \<not> prefix ''///'' path then 2 else 1)
               else (0 :: nat));
            comps = norm_comps initial_slashes (py_split (CHR ''/'') path) [];
            joined = replicate initial_slashes (CHR ''/'') @ py_join ''/'' comps
        in if joined = [] then ''.'' else joined)"

definition os_path_abspath :: "string \<Rightarrow> string \<Rightarrow> string" where
  "os_path_abspath getcwd path =
     os_path_normpath (if prefix ''/'' path then path else os_path_join getcwd path)"

definition os_path_basename :: "string \<Rightarrow> string" where
  "os_path_basename p = rev (takeWhile (\<lambda>c. c \<noteq> CHR ''/'') (rev p))"

section \<open>The world outside the program\<close>

text \<open>
  Every \<open>print\<close> of the source is one constructor of \<open>message\<close>, carrying the values the
  format string interpolates (the text of a caught exception is left out). The banner
  prints around the plan and the code are one message each.
\<close>

datatype message =
    DebugOllamaStderr string
  | ErrorOllamaExited int
  | ErrorOllamaNotFound
  | ErrorQueryingOllama
  | InfoGeneratingPlan
  | InfoPromptsSaved string
  | ErrorSavePrompts
  | InfoGeneratingCode
  | InfoCodeSaved string
  | ErrorWriteCode string
  | InfoRunning string
  | ErrorBadExtension
  | InfoScriptOk
  | ErrorScriptFailed int
  | ErrorUnexpected
  | Usage string
  | InfoWorkingDir string
  | PlanPhaseOutput string
  | InfoAbortedPlan
  | CodePhaseOutput string
  | InfoAbortedExec
  | InfoDone
  | Traceback

datatype question = AskPlan | AskExec string

text \<open>What a file holds: text, or the JSON serialisation of a dictionary.\<close>

datatype content = Text string | Json "(string \<times> string) list"

text \<open>
  The effects of a run, in order: a line on standard output or on standard error, the
  launch of the model runner with its command and its input, a prompt of \<open>input\<close>, a
  file opened for writing, and a launch through \<open>subprocess.run\<close>.
\<close>

datatype event =
    Print message
  | PrintErr message
  | Popen "string list" string
  | Ask question
  | OpenWrite string
  | SubprocessRun "string list"

text \<open>
  The outcomes the operating system decides. \<open>Popen\<close> with \<open>communicate\<close> raises
  \<open>FileNotFoundError\<close>, raises another exception, or completes with a return code,
  the output and the error output. Opening a file for writing fails at \<open>open\<close>
  (the file untouched) or after it (the file truncated, holding what the oracle says).
  \<open>subprocess.run\<close> returns the exit code of the child or fails to launch it.
\<close>

datatype popen_result = PopenNotFound | PopenFailed | Completed int string string

datatype write_fault = OpenError | WriteError content

datatype run_result = Returned int | LaunchFailed

record world =
  argv :: "string list"
  script_file :: string
  executable :: string
  getcwd :: string
  ollama :: "string list \<Rightarrow> string \<Rightarrow> popen_result"
  write_fault :: "string \<Rightarrow> write_fault option"
  run_python :: "string list \<Rightarrow> (string \<rightharpoonup> content) \<Rightarrow> run_result \<times> (string \<rightharpoonup> content)"

record state =
  stdin :: "string list"
  files :: "string \<rightharpoonup> content"
  trace :: "event list"

text \<open>
  What ends a call early: \<open>sys.exit\<close> (a \<open>SystemExit\<close>, which \<open>except Exception\<close> does
  not catch) or the \<open>EOFError\<close> of \<open>input\<close> on an exhausted standard input.
\<close>

datatype stop = SysExit int | EOFError

type_synonym 'a io = "state \<Rightarrow> (stop + 'a) \<times> state"

definition return :: "'a \<Rightarrow> 'a io" where
  "return v s = (Inr v, s)"

definition bind :: "'a io \<Rightarrow> ('a \<Rightarrow> 'b io) \<Rightarrow> 'b io" where
  "bind m f s = (case m s of (Inl e, s') \<Rightarrow> (Inl e, s') | (Inr v, s') \<Rightarrow> f v s')"

definition emit :: "event \<Rightarrow> state \<Rightarrow> state" where
  "emit e s = s\<lparr>trace := trace s @ [e]\<rparr>"

definition print :: "message \<Rightarrow> unit io" where
  "print m s = (Inr (), emit (Print m) s)"

definition print_err :: "message \<Rightarrow> unit io" where
  "print_err m s = (Inr (), emit (PrintErr m) s)"

definition sys_exit :: "int \<Rightarrow> 'a io" where
  "sys_exit code s = (Inl (SysExit code), s)"

definition py_input :: "question \<Rightarrow> string io" where
  "py_input q s =
     (let s1 = emit (Ask q) s in
      case stdin s1 of
        [] \<Rightarrow> (Inl EOFError, s1)
      | line # rest \<Rightarrow> (Inr line, s1\<lparr>stdin := rest\<rparr>))"

text \<open>
  \<open>with open(filename, "w") as f: f.write(data)\<close>. The operating system resolves a
  relative name against the working directory. The result tells whether an exception
  was raised.
\<close>

definition open_write :: "world \<Rightarrow> string \<Rightarrow> content \<Rightarrow> state \<Rightarrow> bool \<times> state" where
  "open_write w filename data s =
     (let s1 = emit (OpenWrite filename) s;
          resolved = os_path_join (getcwd w) filename
      in case write_fault w resolved of
           None \<Rightarrow> (True, s1\<lparr>files := (files s1)(resolved \<mapsto> data)\<rparr>)
         | Some OpenError \<Rightarrow> (False, s1)
         | Some (WriteError left) \<Rightarrow> (False, s1\<lparr>files := (files s1)(resolved \<mapsto> left)\<rparr>))"

section \<open>The program\<close>

definition NL :: string where
  "NL = [CHR 0x0A]"

definition OLLAMA_MODEL :: string where
  "OLLAMA_MODEL = ''codellama:7b''"

definition PLAN_SYSTEM_PROMPT :: string where
  "PLAN_SYSTEM_PROMPT =
     ''You are an AI agent that generates a step-by-step plan for a given file or folder creation request.'' @ NL @
     ''You must detail each step and justify your choices (e.g., using os.makedirs or pathlib) '' @ NL @
     ''for a Windows environment.''"

definition query_ollama :: "world \<Rightarrow> string \<Rightarrow> string \<Rightarrow> string io" where
  "query_ollama w prompt model s =
     (let cmd = [''ollama'', ''run'', model];
          s1 = emit (Popen cmd prompt) s
      in case ollama w cmd prompt of
           PopenNotFound \<Rightarrow> bind (print_err ErrorOllamaNotFound) (\<lambda>_. sys_exit 1) s1
         | PopenFailed \<Rightarrow> bind (print_err ErrorQueryingOllama) (\<lambda>_. sys_exit 1) s1
         | Completed returncode out err \<Rightarrow>
             bind (if err \<noteq> [] then print_err (DebugOllamaStderr err) else return ()) (\<lambda>_.
             if returncode \<noteq> 0
             then bind (print_err (ErrorOllamaExited returncode)) (\<lambda>_. sys_exit 1)
             else return (py_strip out)) s1)"

definition plan_prompt :: "string \<Rightarrow> string" where
  "plan_prompt user_request =
     PLAN_SYSTEM_PROMPT @ NL @ NL @ ''User request:'' @ NL @ user_request @ NL @ NL @ ''Plan:''"

definition plan_phase :: "world \<Rightarrow> string \<Rightarrow> string io" where
  "plan_phase w user_request =
     (let full_prompt = plan_prompt user_request in
      bind (print InfoGeneratingPlan) (\<lambda>_.
      query_ollama w full_prompt OLLAMA_MODEL))"

definition save_prompt_to_file :: "world \<Rightarrow> string \<Rightarrow> string \<Rightarrow> string \<Rightarrow> string \<Rightarrow> unit io" where
  "save_prompt_to_file w plan_text code_text user_request filename s =
     (let data = [(''user_request'', user_request), (''plan'', plan_text),
                  (''generated_code'', code_text)]
      in case open_write w filename (Json data) s of
           (True, s1) \<Rightarrow> print (InfoPromptsSaved filename) s1
         | (False, s1) \<Rightarrow> print ErrorSavePrompts s1)"

definition code_prompt :: "string \<Rightarrow> string \<Rightarrow> string" where
  "code_prompt plan_text user_request =
     ''You are an AI that generates Python code based on the given plan and request.'' @ NL @
     ''Plan:'' @ NL @ plan_text @ NL @ NL @
     ''User request:'' @ NL @ user_request @ NL @ NL @
     ''Generate a clean, executable Python script without markdown formatting, backticks, or extra explanations.'' @ NL @
     ''Ensure it works within the current directory and checks for existing files before writing.'' @ NL @ NL @
     ''Python Code:'' @ NL"

text \<open>The removal of Markdown fences in \<open>code_phase\<close>, named after the variable it defines.\<close>

definition clean_code :: "string \<Rightarrow> string" where
  "clean_code code_response =
     py_strip (py_replace ''```'' [] (py_replace ''```python'' [] code_response))"

definition code_phase :: "world \<Rightarrow> string \<Rightarrow> string \<Rightarrow> string io" where
  "code_phase w plan_text user_request =
     (let full_prompt = code_prompt plan_text user_request in
      bind (print InfoGeneratingCode) (\<lambda>_.
      bind (query_ollama w full_prompt OLLAMA_MODEL) (\<lambda>code_response.
      return (clean_code code_response))))"

text \<open>The argument \<open>filename\<close> is overwritten in the first statement of the body.\<close>

definition save_code_to_file :: "world \<Rightarrow> string \<Rightarrow> string \<Rightarrow> unit io" where
  "save_code_to_file w code_text filename s =
     (let filename' = os_path_abspath (getcwd w) ''generated_script.py''
      in case open_write w filename' (Text (code_text @ NL)) s of
           (True, s1) \<Rightarrow> print (InfoCodeSaved filename') s1
         | (False, s1) \<Rightarrow> print (ErrorWriteCode filename') s1)"

definition execute_script :: "world \<Rightarrow> string \<Rightarrow> unit io" where
  "execute_script w script_path s =
     (let script_path' = os_path_abspath (getcwd w) script_path;
          s1 = emit (Print (InfoRunning script_path')) s
      in if \<not> py_endswith script_path' ''.py''
         then print ErrorBadExtension s1
         else
           let cmd = [executable w, script_path'];
               s2 = emit (SubprocessRun cmd) s1
           in case run_python w cmd (files s2) of
                (Returned returncode, fs) \<Rightarrow>
                  if returncode = 0 then print InfoScriptOk (s2\<lparr>files := fs\<rparr>)
                  else print (ErrorScriptFailed returncode) (s2\<lparr>files := fs\<rparr>)
              | (LaunchFailed, fs) \<Rightarrow> print ErrorUnexpected (s2\<lparr>files := fs\<rparr>))"

definition main :: "world \<Rightarrow> unit io" where
  "main w =
     (if length (argv w) < 2
      then bind (print (Usage (os_path_basename (script_file w)))) (\<lambda>_. sys_exit 1)
      else
        let user_request = argv w ! 1;
            working_dir = getcwd w
        in
        bind (print (InfoWorkingDir working_dir)) (\<lambda>_.
        bind (plan_phase w user_request) (\<lambda>plan_text.
        bind (print (PlanPhaseOutput plan_text)) (\<lambda>_.
        bind (py_input AskPlan) (\<lambda>answer.
        let confirm_plan = py_lower (py_strip answer) in
        bind (if confirm_plan \<noteq> ''y''
              then bind (print InfoAbortedPlan) (\<lambda>_. sys_exit 0)
              else return ()) (\<lambda>_.
        bind (code_phase w plan_text user_request) (\<lambda>code_text.
        bind (print (CodePhaseOutput code_text)) (\<lambda>_.
        bind (save_prompt_to_file w plan_text code_text user_request
                ''generated_prompt.json'') (\<lambda>_.
        let generated_filename = ''generated_script.py'' in
        bind (save_code_to_file w code_text generated_filename) (\<lambda>_.
        bind (py_input (AskExec generated_filename)) (\<lambda>answer'.
        let confirm_code = py_lower (py_strip answer') in
        bind (if confirm_code \<noteq> ''y''
              then bind (print InfoAbortedExec) (\<lambda>_. sys_exit 0)
              else return ()) (\<lambda>_.
        bind (execute_script w generated_filename) (\<lambda>_.
        print InfoDone)))))))))))))"

text \<open>
  The process running \<open>main\<close>: its exit status is the argument of \<open>sys.exit\<close>, 1 after
  an uncaught exception (with a traceback on standard error), and 0 after a return.
\<close>

definition run :: "world \<Rightarrow> state \<Rightarrow> int \<times> state" where
  "run w s =
     (case main w s of
        (Inl (SysExit code), s') \<Rightarrow> (code, s')
      | (Inl EOFError, s') \<Rightarrow> (1, emit (PrintErr Traceback) s')
      | (Inr _, s') \<Rightarrow> (0, s'))"

text \<open>Projections of a trace: the model prompts, the files opened, the commands run.\<close>

fun popens :: "event list \<Rightarrow> string list" where
  "popens [] = []"
| "popens (Popen cmd prompt # es) = prompt # popens es"
| "popens (e # es) = popens es"

fun writes :: "event list \<Rightarrow> string list" where
  "writes [] = []"
| "writes (OpenWrite path # es) = path # writes es"
| "writes (e # es) = writes es"

fun subprocess_runs :: "event list \<Rightarrow> string list list" where
  "subprocess_runs [] = []"
| "subprocess_runs (SubprocessRun cmd # es) = cmd # subprocess_runs es"
| "subprocess_runs (e # es) = subprocess_runs es"

fun asks :: "event list \<Rightarrow> question list" where
  "asks [] = []"
| "asks (Ask q # es) = q # asks es"
| "asks (e # es) = asks es"

fun stderr_lines :: "event list \<Rightarrow> message list" where
  "stderr_lines [] = []"
| "stderr_lines (PrintErr m # es) = m # stderr_lines es"
| "stderr_lines (e # es) = stderr_lines es"

section \<open>Vocabulary of the statements\<close>

text \<open>
  The tails of \<open>main\<close> from each of its stages on, so that a run can be followed stage by
  stage; \<open>main_unfold\<close> below shows that \<open>main\<close> is their composition.
\<close>

definition exec_tail :: "world \<Rightarrow> unit io" where
  "exec_tail w = bind (execute_script w ''generated_script.py'') (\<lambda>_. print InfoDone)"

definition exec_gate :: "world \<Rightarrow> unit io" where
  "exec_gate w =
     bind (py_input (AskExec ''generated_script.py'')) (\<lambda>answer'.
     bind (if py_lower (py_strip answer') \<noteq> ''y''
           then bind (print InfoAbortedExec) (\<lambda>_. sys_exit 0)
           else return ()) (\<lambda>_.
     exec_tail w))"

definition persist_tail :: "world \<Rightarrow> string \<Rightarrow> string \<Rightarrow> string \<Rightarrow> unit io" where
  "persist_tail w plan_text user_request =
     (\<lambda>code_text.
     bind (print (CodePhaseOutput code_text)) (\<lambda>_.
     bind (save_prompt_to_file w plan_text code_text user_request
             ''generated_prompt.json'') (\<lambda>_.
     bind (save_code_to_file w code_text ''generated_script.py'') (\<lambda>_.
     exec_gate w))))"

definition code_tail :: "world \<Rightarrow> string \<Rightarrow> string \<Rightarrow> unit io" where
  "code_tail w plan_text user_request =
     bind (code_phase w plan_text user_request) (persist_tail w plan_text user_request)"

definition plan_gate :: "world \<Rightarrow> string \<Rightarrow> string \<Rightarrow> unit io" where
  "plan_gate w plan_text user_request =
     bind (py_input AskPlan) (\<lambda>answer.
     bind (if py_lower (py_strip answer) \<noteq> ''y''
           then bind (print InfoAbortedPlan) (\<lambda>_. sys_exit 0)
           else return ()) (\<lambda>_.
     code_tail w plan_text user_request))"

definition plan_tail :: "world \<Rightarrow> string \<Rightarrow> unit io" where
  "plan_tail w user_request =
     bind (plan_phase w user_request) (\<lambda>plan_text.
     bind (print (PlanPhaseOutput plan_text)) (\<lambda>_.
     plan_gate w plan_text user_request))"

text \<open>The events of a run up to each approval prompt, and auxiliary names.\<close>

definition ollama_cmd :: "string list" where
  "ollama_cmd = [''ollama'', ''run'', OLLAMA_MODEL]"

definition debug_events :: "string \<Rightarrow> event list" where
  "debug_events err = (if err = [] then [] else [PrintErr (DebugOllamaStderr err)])"

definition script_target :: "world \<Rightarrow> string" where
  "script_target w = os_path_abspath (getcwd w) ''generated_script.py''"

definition events_to_plan_gate :: "world \<Rightarrow> string \<Rightarrow> string \<Rightarrow> string \<Rightarrow> event list" where
  "events_to_plan_gate w user_request out err =
     [Print (InfoWorkingDir (getcwd w)), Print InfoGeneratingPlan,
      Popen ollama_cmd (plan_prompt user_request)]
     @ debug_events err
     @ [Print (PlanPhaseOutput (py_strip out)), Ask AskPlan]"

definition events_to_exec_gate :: "world \<Rightarrow> string \<Rightarrow> string \<Rightarrow> string \<Rightarrow> string \<Rightarrow> event list" where
  "events_to_exec_gate w user_request plan_text out err =
     [Print InfoGeneratingCode, Popen ollama_cmd (code_prompt plan_text user_request)]
     @ debug_events err
     @ [Print (CodePhaseOutput (clean_code (py_strip out))),
        OpenWrite ''generated_prompt.json'',
        Print (if write_fault w (os_path_join (getcwd w) ''generated_prompt.json'') = None
               then InfoPromptsSaved ''generated_prompt.json'' else ErrorSavePrompts),
        OpenWrite (script_target w),
        Print (if write_fault w (os_path_join (getcwd w) (script_target w)) = None
               then InfoCodeSaved (script_target w) else ErrorWriteCode (script_target w)),
        Ask (AskExec ''generated_script.py'')]"

text \<open>The files after the two writes of the persistence step.\<close>

definition write_result ::
  "world \<Rightarrow> string \<Rightarrow> content \<Rightarrow> (string \<rightharpoonup> content) \<Rightarrow> (string \<rightharpoonup> content)" where
  "write_result w filename data fs =
     (case write_fault w (os_path_join (getcwd w) filename) of
        None \<Rightarrow> fs(os_path_join (getcwd w) filename \<mapsto> data)
      | Some OpenError \<Rightarrow> fs
      | Some (WriteError left) \<Rightarrow> fs(os_path_join (getcwd w) filename \<mapsto> left))"

definition persisted_files ::
  "world \<Rightarrow> string \<Rightarrow> string \<Rightarrow> string \<Rightarrow> (string \<rightharpoonup> content) \<Rightarrow> (string \<rightharpoonup> content)" where
  "persisted_files w user_request plan_text code_text fs =
     write_result w (script_target w) (Text (code_text @ NL))
       (write_result w ''generated_prompt.json''
          (Json [(''user_request'', user_request), (''plan'', plan_text),
                 (''generated_code'', code_text)]) fs)"

definition script_outcome :: "run_result \<Rightarrow> message" where
  "script_outcome r =
     (case r of
        Returned returncode \<Rightarrow> if returncode = 0 then InfoScriptOk else ErrorScriptFailed returncode
      | LaunchFailed \<Rightarrow> ErrorUnexpected)"

text \<open>A computation only ever extends the trace.\<close>

definition grows :: "'a io \<Rightarrow> bool" where
  "grows m = (\<forall>s. prefix (trace s) (trace (snd (m s))))"

text \<open>
  A concrete world for the end-to-end scenario: the model answers the plan prompt (which
  ends with a colon) with the plan and the code prompt with the fenced script; the
  generated script exits with the given code.
\<close>

definition example_request :: string where
  "example_request = ''create a folder named reports''"

definition example_plan :: string where
  "example_plan = ''1. Use a directory-creation call. 2. Check existence first.''"

definition example_response :: string where
  "example_response =
     ''```python'' @ NL @ ''import os'' @ NL @ ''os.makedirs('' @ [CHR 0x27] @ ''reports''
       @ [CHR 0x27] @ '', exist_ok=True)'' @ NL @ ''```''"

definition example_code :: string where
  "example_code =
     ''import os'' @ NL @ ''os.makedirs('' @ [CHR 0x27] @ ''reports''
       @ [CHR 0x27] @ '', exist_ok=True)''"

definition example_model :: "string list \<Rightarrow> string \<Rightarrow> popen_result" where
  "example_model cmd prompt =
     (if last prompt = CHR '':'' then Completed 0 example_plan [] else Completed 0 example_response [])"

definition example_world ::
  "string list \<Rightarrow> string \<Rightarrow> (string list \<Rightarrow> string \<Rightarrow> popen_result)
     \<Rightarrow> (string \<Rightarrow> write_fault option) \<Rightarrow> int \<Rightarrow> world" where
  "example_world args dir model faults returncode =
     \<lparr>argv = args, script_file = ''/opt/agent/local_code_ai_agent.py'',
      executable = ''/usr/bin/python3'', getcwd = dir, ollama = model,
      write_fault = faults, run_python = (\<lambda>cmd fs. (Returned returncode, fs))\<rparr>"

definition initial_state :: "string list \<Rightarrow> state" where
  "initial_state inputs = \<lparr>stdin = inputs, files = Map.empty, trace = []\<rparr>"

text \<open>Further model runners and a write fault, for the concrete runs below.\<close>

definition missing_model :: "string list \<Rightarrow> string \<Rightarrow> popen_result" where
  "missing_model cmd prompt = PopenNotFound"

definition vanishing_model :: "string list \<Rightarrow> string \<Rightarrow> popen_result" where
  "vanishing_model cmd prompt =
     (if last prompt = CHR '':'' then Completed 0 example_plan [] else PopenNotFound)"

definition script_unwritable :: "string \<Rightarrow> write_fault option" where
  "script_unwritable p = (if p = ''/home/user/generated_script.py'' then Some OpenError else None)"

text \<open>
  Three properties of a computation, for the analysis of a missing model runner: it leaves
  the files alone and opens none for writing; it never prints the message of the missing
  runner; when it prints that message, it ends in \<open>sys.exit(1)\<close> with no file opened
  for writing and the files as they were.
\<close>

definition inert :: "'a io \<Rightarrow> bool" where
  "inert m = (\<forall>s. files (snd (m s)) = files s
       \<and> (\<exists>evs. trace (snd (m s)) = trace s @ evs \<and> writes evs = []))"

definition silent :: "'a io \<Rightarrow> bool" where
  "silent m = (\<forall>s. \<exists>evs. trace (snd (m s)) = trace s @ evs
       \<and> PrintErr ErrorOllamaNotFound \<notin> set evs)"

definition fatal_if_not_found :: "'a io \<Rightarrow> bool" where
  "fatal_if_not_found m =
     (\<forall>s evs. trace (snd (m s)) = trace s @ evs \<and> PrintErr ErrorOllamaNotFound \<in> set evs
        \<longrightarrow> fst (m s) = Inl (SysExit 1) \<and> writes evs = [] \<and> files (snd (m s)) = files s)"

section \<open>Facts on the string primitives\<close>

lemma py_replace_no_occ:
  "old \<noteq> [] \<Longrightarrow> \<not> sublist old s \<Longrightarrow> py_replace old new s = s"
proof (induction s)
  case Nil
  then show ?case by simp
next
  case (Cons c cs)
  have np: "\<not> prefix old (c # cs)"
    using Cons.prems(2) by (simp add: sublist_Cons_right)
  have ns: "\<not> sublist old cs"
    using Cons.prems(2) by (simp add: sublist_Cons_right)
  have "py_replace old new cs = cs"
    using Cons.IH[OF Cons.prems(1) ns] .
  then show ?case using np Cons.prems(1) by (simp del: Cons_prefix_Cons prefix_Cons)
qed

lemma rstrip_prefix: "prefix (py_rstrip s) s"
  unfolding py_rstrip_def
  by (metis suffix_dropWhile suffix_to_prefix rev_rev_ident)

lemma lstrip_suffix: "suffix (py_lstrip s) s"
  unfolding py_lstrip_def by (rule suffix_dropWhile)

lemma strip_sublist: "sublist (py_strip s) s"
proof -
  have "sublist (py_rstrip (py_lstrip s)) (py_lstrip s)"
    using rstrip_prefix by (rule prefix_imp_sublist)
  moreover have "sublist (py_lstrip s) s"
    using lstrip_suffix by (rule suffix_imp_sublist)
  ultimately show ?thesis
    unfolding py_strip_def by (rule sublist_order.order_trans)
qed

lemma lstrip_rstrip_lstrip: "py_lstrip (py_rstrip (py_lstrip s)) = py_rstrip (py_lstrip s)"
proof (cases "py_rstrip (py_lstrip s) = []")
  case True
  then show ?thesis by (simp add: py_lstrip_def)
next
  case False
  obtain zs where u: "py_lstrip s = py_rstrip (py_lstrip s) @ zs"
    using rstrip_prefix[of "py_lstrip s"] by (auto simp: prefix_def)
  have "hd (py_rstrip (py_lstrip s)) = hd (py_lstrip s)"
    using False u by (metis hd_append2)
  moreover have "py_lstrip s \<noteq> []"
    using False u by auto
  then have "\<not> isspace (hd (py_lstrip s))"
    unfolding py_lstrip_def by (rule hd_dropWhile)
  ultimately have "\<not> isspace (hd (py_rstrip (py_lstrip s)))"
    by simp
  then show ?thesis
    unfolding py_lstrip_def[of "py_rstrip _"] by (simp add: dropWhile_eq_self_iff)
qed

lemma rstrip_idem: "py_rstrip (py_rstrip s) = py_rstrip s"
  unfolding py_rstrip_def by simp

lemma py_strip_idem: "py_strip (py_strip s) = py_strip s"
  unfolding py_strip_def by (simp add: lstrip_rstrip_lstrip rstrip_idem)

lemma replace_fence_step:
  "py_replace ''```'' [] (''```'' @ r) = py_replace ''```'' [] r"
  by simp

lemma replace_fence_skip:
  "\<not> prefix ''```'' (c # cs) \<Longrightarrow>
   py_replace ''```'' [] (c # cs) = c # py_replace ''```'' [] cs"
  by (simp del: Cons_prefix_Cons prefix_Cons)

lemma replace_fence_ticks:
  "prefix (replicate k (CHR 0x60)) (py_replace ''```'' [] s) \<Longrightarrow>
   prefix (replicate k (CHR 0x60)) s"
proof (induction s arbitrary: k rule: length_induct)
  case (1 s)
  note IH = "1.IH" [rule_format]
  show ?case
  proof (cases s)
    case Nil
    with "1.prems" show ?thesis by simp
  next
    case (Cons c cs)
    show ?thesis
    proof (cases "prefix ''```'' s")
      case True
      then obtain r where r: "s = ''```'' @ r"
        by (auto simp: prefix_def)
      have "prefix (replicate k (CHR 0x60)) (py_replace ''```'' [] r)"
        using "1.prems" unfolding r replace_fence_step .
      moreover have "length r < length s"
        using r by simp
      ultimately have "prefix (replicate k (CHR 0x60)) r"
        by (rule IH [rotated])
      then obtain t where "r = replicate k (CHR 0x60) @ t"
        by (auto simp: prefix_def)
      then have "s = replicate k (CHR 0x60) @ (''```'' @ t)"
        using r by (simp add: replicate_app_Cons_same)
      then show ?thesis
        unfolding prefix_def by blast
    next
      case False
      have step: "py_replace ''```'' [] s = c # py_replace ''```'' [] cs"
        using False unfolding Cons by (rule replace_fence_skip)
      show ?thesis
      proof (cases k)
        case 0
        then show ?thesis by simp
      next
        case (Suc j)
        have c: "c = CHR 0x60"
          and p: "prefix (replicate j (CHR 0x60)) (py_replace ''```'' [] cs)"
          using "1.prems" unfolding step Suc by auto
        have "length cs < length s"
          using Cons by simp
        with p have "prefix (replicate j (CHR 0x60)) cs"
          by (rule IH [rotated])
        with c show ?thesis
          unfolding Cons Suc by simp
      qed
    qed
  qed
qed

lemma replace_fence_free: "\<not> sublist ''```'' (py_replace ''```'' [] s)"
proof (induction s rule: length_induct)
  case (1 s)
  note IH = "1.IH" [rule_format]
  show ?case
  proof (cases s)
    case Nil
    then show ?thesis by simp
  next
    case (Cons c cs)
    show ?thesis
    proof (cases "prefix ''```'' s")
      case True
      then obtain r where r: "s = ''```'' @ r"
        by (auto simp: prefix_def)
      have "length r < length s"
        using r by simp
      then have "\<not> sublist ''```'' (py_replace ''```'' [] r)"
        by (rule IH)
      then show ?thesis
        unfolding r replace_fence_step .
    next
      case False
      have step: "py_replace ''```'' [] s = c # py_replace ''```'' [] cs"
        using False unfolding Cons by (rule replace_fence_skip)
      have "length cs < length s"
        using Cons by simp
      then have tl: "\<not> sublist ''```'' (py_replace ''```'' [] cs)"
        by (rule IH)
      have "\<not> prefix ''```'' (c # py_replace ''```'' [] cs)"
      proof
        assume "prefix ''```'' (c # py_replace ''```'' [] cs)"
        then have c: "c = CHR 0x60"
          and "prefix ''``'' (py_replace ''```'' [] cs)"
          by auto
        then have "prefix (replicate 2 (CHR 0x60)) (py_replace ''```'' [] cs)"
          by (simp add: numeral_2_eq_2)
        then have "prefix (replicate 2 (CHR 0x60)) cs"
          by (rule replace_fence_ticks)
        with c have "prefix ''```'' s"
          unfolding Cons by (simp add: numeral_2_eq_2)
        with False show False ..
      qed
      with tl show ?thesis
        unfolding step by (simp add: sublist_Cons_right del: Cons_prefix_Cons prefix_Cons)
    qed
  qed
qed

lemma fence_in_tagged: "sublist ''```'' ''```python''"
  by (rule prefix_imp_sublist) simp

section \<open>The removal of Markdown fences\<close>

text \<open>
  C8. The markup-stripping pass of the Code Stage is idempotent: for every text \<open>T\<close>,
  applying it twice gives what applying it once gives. After one pass no run of three
  backticks is left, so the second pass finds no fence and nothing more to trim.
\<close>

theorem clean_code_idem: "clean_code (clean_code T) = clean_code T"
proof -
  define r where "r = py_replace ''```'' [] (py_replace ''```python'' [] T)"
  have c: "clean_code T = py_strip r"
    by (simp add: clean_code_def r_def)
  have "\<not> sublist ''```'' r"
    unfolding r_def by (rule replace_fence_free)
  then have nf: "\<not> sublist ''```'' (py_strip r)"
    using strip_sublist sublist_order.order_trans by blast
  then have nt: "\<not> sublist ''```python'' (py_strip r)"
    using fence_in_tagged sublist_order.order_trans by blast
  have "py_replace ''```python'' [] (py_strip r) = py_strip r"
    using nt by (simp add: py_replace_no_occ)
  moreover have "py_replace ''```'' [] (py_strip r) = py_strip r"
    using nf by (simp add: py_replace_no_occ)
  ultimately show ?thesis
    unfolding c by (simp add: clean_code_def py_strip_idem)
qed

theorem clean_code_idem_witness:
  "clean_code (clean_code ''```python x = 1 ```'') = clean_code ''```python x = 1 ```''"
  by (rule clean_code_idem)

lemma replace_fence_closing:
  "\<not> sublist ''```'' code \<Longrightarrow> py_replace ''```'' [] (code @ ''```'') = code"
proof (induction code)
  case Nil
  show ?case by simp
next
  case (Cons c cs)
  have ns: "\<not> sublist ''```'' cs"
    using Cons.prems by (simp add: sublist_Cons_right del: Cons_prefix_Cons prefix_Cons)
  have np: "\<not> prefix ''```'' (c # cs)"
    using Cons.prems by (simp add: sublist_Cons_right del: Cons_prefix_Cons prefix_Cons)
  have IH: "py_replace ''```'' [] (cs @ ''```'') = cs"
    using ns by (rule Cons.IH)
  show ?case
  proof (cases "prefix ''```'' (c # cs @ ''```'')")
    case False
    then have "py_replace ''```'' [] (c # cs @ ''```'') = c # py_replace ''```'' [] (cs @ ''```'')"
      by (rule replace_fence_skip)
    then show ?thesis using IH by simp
  next
    case True
    then have c: "c = CHR 0x60" by auto
    show ?thesis
    proof (cases cs)
      case Nil
      then show ?thesis using c by simp
    next
      case (Cons d ds)
      note cs = Cons
      have d: "d = CHR 0x60" using True cs by auto
      show ?thesis
      proof (cases ds)
        case Nil
        then show ?thesis using c d cs by simp
      next
        case (Cons e es)
        then have "e = CHR 0x60" using True cs by auto
        then have "prefix ''```'' (c # cs)" using c d cs Cons by simp
        with np show ?thesis ..
      qed
    qed
  qed
qed

lemma tagged_in_closing:
  assumes "sublist ''```python'' (x @ ''```'')"
  shows "sublist ''```python'' x"
proof -
  from assms obtain ps ss where eq: "x @ ''```'' = (ps @ ''```python'') @ ss"
    unfolding sublist_def by auto
  then obtain us where
    "(x = (ps @ ''```python'') @ us \<and> us @ ''```'' = ss) \<or>
     (x @ us = ps @ ''```python'' \<and> ''```'' = us @ ss)"
    unfolding append_eq_append_conv2 by blast
  then show ?thesis
  proof
    assume "x = (ps @ ''```python'') @ us \<and> us @ ''```'' = ss"
    then show ?thesis unfolding sublist_def by auto
  next
    assume a: "x @ us = ps @ ''```python'' \<and> ''```'' = us @ ss"
    show ?thesis
    proof (cases "us = []")
      case True
      with a show ?thesis unfolding sublist_def by auto
    next
      case False
      then have "last (x @ us) = last us" by simp
      moreover have "last (x @ us) = CHR ''n''" using a by simp
      moreover have "set us \<subseteq> {CHR 0x60}"
      proof -
        have "set us \<subseteq> set (us @ ss)" by simp
        also have "\<dots> = set ''```''" using a by simp
        finally show ?thesis by simp
      qed
      then have "last us = CHR 0x60" using False last_in_set by fastforce
      ultimately show ?thesis by simp
    qed
  qed
qed

lemma fence_in_tagged': "\<not> sublist ''```'' x \<Longrightarrow> \<not> sublist ''```python'' x"
  using fence_in_tagged sublist_order.order_trans by blast

lemma replace_tagged:
  "\<not> sublist ''```'' code \<Longrightarrow>
   py_replace ''```python'' [] (''```python'' @ code @ ''```'') = code @ ''```''"
proof -
  assume a: "\<not> sublist ''```'' code"
  have "\<not> sublist ''```python'' (code @ ''```'')"
    using a fence_in_tagged' tagged_in_closing by blast
  then have "py_replace ''```python'' [] (code @ ''```'') = code @ ''```''"
    by (simp add: py_replace_no_occ)
  then show ?thesis by simp
qed

lemma clean_code_fence_free: "\<not> sublist ''```'' (clean_code response)"
proof -
  have "\<not> sublist ''```'' (py_replace ''```'' [] (py_replace ''```python'' [] response))"
    by (rule replace_fence_free)
  then show ?thesis
    unfolding clean_code_def using strip_sublist sublist_order.order_trans by blast
qed

lemma strip_example:
  "py_strip (NL @ ''import os'' @ NL @ ''os.makedirs('' @ [CHR 0x27] @ ''reports'' @ [CHR 0x27]
      @ '', exist_ok=True)'' @ NL)
   = ''import os'' @ NL @ ''os.makedirs('' @ [CHR 0x27] @ ''reports'' @ [CHR 0x27]
      @ '', exist_ok=True)''"
  by (simp add: py_strip_def py_lstrip_def py_rstrip_def isspace_def NL_def)

text \<open>
  C9, as amended. For every code text without a run of three backticks, the response made
  of a \<open>```python\<close> fence, the code text and a closing fence is cleaned to the code text
  with its surrounding whitespace trimmed; with a plain opening fence the same holds when
  the opening fence followed by the code text does not contain \<open>```python\<close>. No run of
  three backticks remains in the output. The response of the end-to-end scenario is
  cleaned to its two lines of code joined by a newline.
\<close>

theorem clean_code_fenced:
  "\<not> sublist ''```'' code \<Longrightarrow>
     clean_code (''```python'' @ code @ ''```'') = py_strip code
   \<and> (\<not> sublist ''```python'' (''```'' @ code) \<longrightarrow>
        clean_code (''```'' @ code @ ''```'') = py_strip code)
   \<and> \<not> sublist ''```'' (clean_code (''```python'' @ code @ ''```''))
   \<and> \<not> sublist ''```'' (clean_code (''```'' @ code @ ''```''))
   \<and> clean_code (''```python'' @ NL @ ''import os'' @ NL @ ''os.makedirs('' @ [CHR 0x27]
          @ ''reports'' @ [CHR 0x27] @ '', exist_ok=True)'' @ NL @ ''```'')
       = ''import os'' @ NL @ ''os.makedirs('' @ [CHR 0x27] @ ''reports'' @ [CHR 0x27]
          @ '', exist_ok=True)''"
proof -
  assume a: "\<not> sublist ''```'' code"
  have closing: "py_replace ''```'' [] (code @ ''```'') = code"
    using a by (rule replace_fence_closing)
  have tagged: "clean_code (''```python'' @ code @ ''```'') = py_strip code"
    unfolding clean_code_def replace_tagged[OF a] closing ..
  have plain: "clean_code (''```'' @ code @ ''```'') = py_strip code"
    if b: "\<not> sublist ''```python'' (''```'' @ code)"
  proof -
    have "\<not> sublist ''```python'' ((''```'' @ code) @ ''```'')"
      using b tagged_in_closing by blast
    then have ns: "\<not> sublist ''```python'' (''```'' @ code @ ''```'')"
      unfolding append_assoc .
    have "''```python'' \<noteq> []"
      by simp
    then have r1: "py_replace ''```python'' [] (''```'' @ code @ ''```'') = ''```'' @ code @ ''```''"
      using ns by (rule py_replace_no_occ)
    show ?thesis
      unfolding clean_code_def r1 replace_fence_step closing ..
  qed
  have example:
    "clean_code (''```python'' @ NL @ ''import os'' @ NL @ ''os.makedirs('' @ [CHR 0x27]
          @ ''reports'' @ [CHR 0x27] @ '', exist_ok=True)'' @ NL @ ''```'')
       = ''import os'' @ NL @ ''os.makedirs('' @ [CHR 0x27] @ ''reports'' @ [CHR 0x27]
          @ '', exist_ok=True)''"
    by (simp add: clean_code_def py_strip_def py_lstrip_def py_rstrip_def isspace_def NL_def)
  show ?thesis
    using tagged plain example clean_code_fence_free by blast
qed

theorem clean_code_fenced_witness:
  "clean_code (''```python'' @ (NL @ ''import os'' @ NL @ ''os.makedirs('' @ [CHR 0x27]
        @ ''reports'' @ [CHR 0x27] @ '', exist_ok=True)'' @ NL) @ ''```'')
     = ''import os'' @ NL @ ''os.makedirs('' @ [CHR 0x27] @ ''reports'' @ [CHR 0x27]
        @ '', exist_ok=True)''
   \<and> clean_code (''```'' @ (NL @ ''import os'' @ NL @ ''os.makedirs('' @ [CHR 0x27]
        @ ''reports'' @ [CHR 0x27] @ '', exist_ok=True)'' @ NL) @ ''```'')
     = ''import os'' @ NL @ ''os.makedirs('' @ [CHR 0x27] @ ''reports'' @ [CHR 0x27]
        @ '', exist_ok=True)''"
proof -
  let ?code = "NL @ ''import os'' @ NL @ ''os.makedirs('' @ [CHR 0x27]
        @ ''reports'' @ [CHR 0x27] @ '', exist_ok=True)'' @ NL"
  have h1: "\<not> sublist ''```'' ?code"
    by (simp add: sublist_Cons_right NL_def)
  have h2: "\<not> sublist ''```python'' (''```'' @ ?code)"
    by (simp add: sublist_Cons_right NL_def)
  show ?thesis
    using clean_code_fenced[OF h1] h2 strip_example by simp
qed

text \<open>
  C9 as stated fails for a code text that itself contains a fence: the fence inside the
  code is removed with the others, so the output is not the enclosed code text. It also
  fails for a plain fence directly followed by a code text that begins with \<open>python\<close>:
  the word is removed with the fence.
\<close>

theorem clean_code_fenced_counterexample:
  "clean_code (''```python'' @ (NL @ ''x = 1  # not ``` here'' @ NL) @ ''```'')
     = ''x = 1  # not  here''
   \<and> py_strip (NL @ ''x = 1  # not ``` here'' @ NL) = ''x = 1  # not ``` here''
   \<and> clean_code (''```python'' @ (NL @ ''x = 1  # not ``` here'' @ NL) @ ''```'')
     \<noteq> py_strip (NL @ ''x = 1  # not ``` here'' @ NL)
   \<and> clean_code (''```'' @ ''python_version = 3'' @ ''```'') = ''_version = 3''
   \<and> py_strip ''python_version = 3'' = ''python_version = 3''"
  by (simp add: clean_code_def py_strip_def py_lstrip_def py_rstrip_def isspace_def NL_def)

section \<open>Paths\<close>

lemma py_split_nonempty: "py_split sep s \<noteq> []"
  by (induction s) (auto split: list.splits)

lemma py_split_no_sep: "sep \<notin> set s \<Longrightarrow> py_split sep s = [s]"
  by (induction s) auto

lemma py_split_append:
  "py_split sep (a @ sep # b) = py_split sep a @ py_split sep b"
  by (induction a) (auto split: list.splits simp: py_split_nonempty)

lemma norm_comps_append:
  "norm_comps k (xs @ ys) acc = norm_comps k ys (norm_comps k xs acc)"
  by (induction k xs acc rule: norm_comps.induct) auto

lemma py_join_snoc: "\<exists>pre. py_join sep (xs @ [g]) = pre @ g"
  by (induction sep xs rule: py_join.induct) auto

lemma normpath_last:
  assumes split: "py_split (CHR ''/'') path = pre @ [g]"
    and g: "g \<noteq> []" "g \<noteq> ''.''" "g \<noteq> ''..''"
  shows "suffix g (os_path_normpath path)"
proof -
  have ne: "path \<noteq> []"
    using split g by (cases path) (auto simp: Cons_eq_append_conv)
  define k where "k = (if prefix ''/'' path
               then (if prefix ''//'' path \<and> \<not> prefix ''///'' path then 2 else 1)
               else (0 :: nat))"
  have "norm_comps k (pre @ [g]) [] = norm_comps k pre [] @ [g]"
    using g by (simp add: norm_comps_append)
  then obtain p where p: "py_join ''/'' (norm_comps k (py_split (CHR ''/'') path) []) = p @ g"
    using py_join_snoc split by metis
  have "os_path_normpath path = replicate k (CHR ''/'') @ p @ g"
    using ne p g(1) unfolding os_path_normpath_def k_def[symmetric] by (simp add: Let_def)
  then show ?thesis
    unfolding suffix_def by (metis append_assoc)
qed

lemma abspath_relative_name:
  assumes g: "g \<noteq> []" "g \<noteq> ''.''" "g \<noteq> ''..''" "CHR ''/'' \<notin> set g"
  shows "suffix g (os_path_abspath d g)"
proof -
  have rel: "\<not> prefix ''/'' g"
    using g(4) by (cases g) auto
  have "\<exists>pre. py_split (CHR ''/'') (os_path_join d g) = pre @ [g]"
  proof (cases "d = []")
    case True
    then show ?thesis
      using rel g(4) by (simp add: os_path_join_def py_split_no_sep del: Cons_prefix_Cons prefix_Cons)
  next
    case False
    show ?thesis
    proof (cases "suffix ''/'' d")
      case True
      then obtain a where "d = a @ ''/''"
        by (auto simp: suffix_def)
      then have "os_path_join d g = a @ CHR ''/'' # g"
        using rel True by (simp add: os_path_join_def del: Cons_prefix_Cons prefix_Cons)
      then show ?thesis
        using g(4) by (simp add: py_split_append py_split_no_sep)
    next
      case False
      then have "os_path_join d g = d @ CHR ''/'' # g"
        using rel \<open>d \<noteq> []\<close> by (simp add: os_path_join_def del: Cons_prefix_Cons prefix_Cons)
      then show ?thesis
        using g(4) by (simp add: py_split_append py_split_no_sep)
    qed
  qed
  then obtain pre where "py_split (CHR ''/'') (os_path_join d g) = pre @ [g]" ..
  then have "suffix g (os_path_normpath (os_path_join d g))"
    using g(1,2,3) by (rule normpath_last)
  then show ?thesis
    using rel unfolding os_path_abspath_def by simp
qed

lemma abspath_generated_script:
  "py_endswith (os_path_abspath d ''generated_script.py'') ''.py''"
proof -
  have "suffix ''generated_script.py'' (os_path_abspath d ''generated_script.py'')"
    by (rule abspath_relative_name) simp_all
  moreover have "suffix ''.py'' ''generated_script.py''"
    by (simp add: suffix_def)
  ultimately show ?thesis
    unfolding py_endswith_def using suffix_order.order_trans by blast
qed

section \<open>Following a run\<close>

lemmas io_defs = bind_def return_def print_def print_err_def sys_exit_def emit_def py_input_def

lemma popens_append: "popens (xs @ ys) = popens xs @ popens ys"
  by (induction xs rule: popens.induct) simp_all

lemma writes_append: "writes (xs @ ys) = writes xs @ writes ys"
  by (induction xs rule: writes.induct) simp_all

lemma subprocess_runs_append:
  "subprocess_runs (xs @ ys) = subprocess_runs xs @ subprocess_runs ys"
  by (induction xs rule: subprocess_runs.induct) simp_all

lemma asks_append: "asks (xs @ ys) = asks xs @ asks ys"
  by (induction xs rule: asks.induct) simp_all

lemma query_ollama_ok:
  "ollama w [''ollama'', ''run'', model] prompt = Completed 0 out err \<Longrightarrow>
   query_ollama w prompt model s =
     (Inr (py_strip out),
      s\<lparr>trace := trace s @ Popen [''ollama'', ''run'', model] prompt
            # (if err = [] then [] else [PrintErr (DebugOllamaStderr err)])\<rparr>)"
  by (simp add: query_ollama_def io_defs)

lemma query_ollama_not_found:
  "ollama w [''ollama'', ''run'', model] prompt = PopenNotFound \<Longrightarrow>
   query_ollama w prompt model s =
     (Inl (SysExit 1),
      s\<lparr>trace := trace s @ [Popen [''ollama'', ''run'', model] prompt,
            PrintErr ErrorOllamaNotFound]\<rparr>)"
  by (simp add: query_ollama_def io_defs)

lemma plan_phase_ok:
  "ollama w [''ollama'', ''run'', OLLAMA_MODEL] (plan_prompt req) = Completed 0 out err \<Longrightarrow>
   plan_phase w req s =
     (Inr (py_strip out),
      s\<lparr>trace := trace s @ Print InfoGeneratingPlan
            # Popen [''ollama'', ''run'', OLLAMA_MODEL] (plan_prompt req)
            # (if err = [] then [] else [PrintErr (DebugOllamaStderr err)])\<rparr>)"
  using query_ollama_ok[of w OLLAMA_MODEL "plan_prompt req" out err]
  by (simp add: plan_phase_def io_defs)

lemma code_phase_ok:
  "ollama w [''ollama'', ''run'', OLLAMA_MODEL] (code_prompt plan req) = Completed 0 out err \<Longrightarrow>
   code_phase w plan req s =
     (Inr (clean_code (py_strip out)),
      s\<lparr>trace := trace s @ Print InfoGeneratingCode
            # Popen [''ollama'', ''run'', OLLAMA_MODEL] (code_prompt plan req)
            # (if err = [] then [] else [PrintErr (DebugOllamaStderr err)])\<rparr>)"
  using query_ollama_ok[of w OLLAMA_MODEL "code_prompt plan req" out err]
  by (simp add: code_phase_def io_defs)

lemma growsI: "(\<And>s. prefix (trace s) (trace (snd (m s)))) \<Longrightarrow> grows m"
  by (simp add: grows_def)

lemma growsD: "grows m \<Longrightarrow> m s = (r, s') \<Longrightarrow> \<exists>evs. trace s' = trace s @ evs"
  unfolding grows_def prefix_def by (metis snd_conv)

lemma grows_return: "grows (return v)"
  by (simp add: grows_def return_def)

lemma grows_print: "grows (print m)"
  by (simp add: grows_def print_def emit_def)

lemma grows_print_err: "grows (print_err m)"
  by (simp add: grows_def print_err_def emit_def)

lemma grows_sys_exit: "grows (sys_exit n)"
  by (simp add: grows_def sys_exit_def)

lemma grows_py_input: "grows (py_input q)"
  by (simp add: grows_def py_input_def emit_def Let_def split: list.split)

lemma grows_bind: "grows m \<Longrightarrow> (\<And>v. grows (f v)) \<Longrightarrow> grows (bind m f)"
proof (rule growsI)
  fix s
  assume m: "grows m" and f: "\<And>v. grows (f v)"
  obtain r s1 where ms: "m s = (r, s1)" by (cases "m s")
  have p1: "prefix (trace s) (trace s1)"
    using m ms unfolding grows_def by (metis snd_conv)
  show "prefix (trace s) (trace (snd (bind m f s)))"
  proof (cases r)
    case (Inl e)
    then show ?thesis using ms p1 by (simp add: bind_def)
  next
    case (Inr v)
    have "prefix (trace s1) (trace (snd (f v s1)))"
      using f unfolding grows_def by blast
    then show ?thesis
      using Inr ms p1 by (auto simp: bind_def intro: prefix_order.order_trans)
  qed
qed

lemma grows_if: "grows a \<Longrightarrow> grows b \<Longrightarrow> grows (if c then a else b)"
  by simp

lemma grows_query_ollama: "grows (query_ollama w prompt model)"
  by (simp add: grows_def query_ollama_def io_defs Let_def split: popen_result.split)

lemma grows_plan_phase: "grows (plan_phase w req)"
  unfolding plan_phase_def Let_def
  by (intro grows_bind grows_print grows_query_ollama)

lemma grows_code_phase: "grows (code_phase w plan req)"
  unfolding code_phase_def Let_def
  by (intro grows_bind grows_print grows_query_ollama grows_return)

lemma save_prompt_to_file_eq:
  "save_prompt_to_file w plan code req filename s =
     (Inr (),
      s\<lparr>files := write_result w filename
                    (Json [(''user_request'', req), (''plan'', plan), (''generated_code'', code)])
                    (files s),
         trace := trace s @ [OpenWrite filename,
                   Print (if write_fault w (os_path_join (getcwd w) filename) = None
                          then InfoPromptsSaved filename else ErrorSavePrompts)]\<rparr>)"
  by (simp add: save_prompt_to_file_def open_write_def print_def emit_def Let_def write_result_def
        split: option.split write_fault.split)

lemma save_code_to_file_eq:
  "save_code_to_file w code filename s =
     (Inr (),
      s\<lparr>files := write_result w (script_target w) (Text (code @ NL)) (files s),
         trace := trace s @ [OpenWrite (script_target w),
                   Print (if write_fault w (os_path_join (getcwd w) (script_target w)) = None
                          then InfoCodeSaved (script_target w)
                          else ErrorWriteCode (script_target w))]\<rparr>)"
  by (simp add: save_code_to_file_def script_target_def open_write_def print_def emit_def Let_def
        write_result_def split: option.split write_fault.split)

lemma grows_save_prompt_to_file: "grows (save_prompt_to_file w plan code req filename)"
  by (simp add: grows_def save_prompt_to_file_eq)

lemma grows_save_code_to_file: "grows (save_code_to_file w code filename)"
  by (simp add: grows_def save_code_to_file_eq)

lemma execute_script_cases:
  "execute_script w path s =
     (Inr (),
      if py_endswith (os_path_abspath (getcwd w) path) ''.py''
      then s\<lparr>files := snd (run_python w [executable w, os_path_abspath (getcwd w) path] (files s)),
             trace := trace s @ [Print (InfoRunning (os_path_abspath (getcwd w) path)),
                SubprocessRun [executable w, os_path_abspath (getcwd w) path],
                Print (case fst (run_python w [executable w, os_path_abspath (getcwd w) path] (files s)) of
                         Returned returncode \<Rightarrow>
                           if returncode = 0 then InfoScriptOk else ErrorScriptFailed returncode
                       | LaunchFailed \<Rightarrow> ErrorUnexpected)]\<rparr>
      else s\<lparr>trace := trace s @ [Print (InfoRunning (os_path_abspath (getcwd w) path)),
                Print ErrorBadExtension]\<rparr>)"
  by (simp add: execute_script_def print_def emit_def Let_def split: prod.split run_result.split)

lemma grows_execute_script: "grows (execute_script w path)"
  by (simp add: grows_def execute_script_cases)

lemmas grows_intros = grows_bind grows_if grows_return grows_print grows_print_err grows_sys_exit
  grows_py_input grows_query_ollama grows_plan_phase grows_code_phase
  grows_save_prompt_to_file grows_save_code_to_file grows_execute_script

lemma grows_main: "grows (main w)"
  unfolding main_def Let_def by (intro grows_intros)

lemma main_unfold:
  "argv w = prog # user_request # extra \<Longrightarrow>
   main w = bind (print (InfoWorkingDir (getcwd w))) (\<lambda>_. plan_tail w user_request)"
  by (simp add: main_def plan_tail_def plan_gate_def code_tail_def persist_tail_def
      exec_gate_def exec_tail_def Let_def)

lemma emit_fields [simp]:
  "stdin (emit e s) = stdin s" "files (emit e s) = files s" "trace (emit e s) = trace s @ [e]"
  by (simp_all add: emit_def)

lemma bind_print: "bind (print m) f s = f () (emit (Print m) s)"
  by (simp add: bind_def print_def)

lemma exec_tail_result:
  "\<exists>s'. exec_tail w s = (Inr (), s') \<and> stdin s' = stdin s
     \<and> trace s' = trace s @
         [Print (InfoRunning (script_target w)), SubprocessRun [executable w, script_target w],
          Print (script_outcome (fst (run_python w [executable w, script_target w] (files s)))),
          Print InfoDone]"
  using abspath_generated_script[of "getcwd w"]
  by (simp add: exec_tail_def bind_def execute_script_cases print_def script_target_def
      script_outcome_def)

lemma py_input_line:
  "stdin s = line # rest \<Longrightarrow>
   \<exists>s'. py_input q s = (Inr line, s') \<and> stdin s' = rest \<and> files s' = files s
     \<and> trace s' = trace s @ [Ask q]"
  by (simp add: py_input_def Let_def emit_def)

lemma exec_gate_result:
  assumes "stdin s = answer # rest"
  shows "\<exists>s1. stdin s1 = rest \<and> files s1 = files s
      \<and> trace s1 = trace s @ [Ask (AskExec ''generated_script.py'')]
      \<and> exec_gate w s =
          (if py_lower (py_strip answer) \<noteq> ''y''
           then (Inl (SysExit 0), emit (Print InfoAbortedExec) s1)
           else exec_tail w s1)"
proof -
  obtain s1 where s1: "py_input (AskExec ''generated_script.py'') s = (Inr answer, s1)"
    "stdin s1 = rest" "files s1 = files s"
    "trace s1 = trace s @ [Ask (AskExec ''generated_script.py'')]"
    using py_input_line[OF assms] by blast
  have "exec_gate w s =
          (if py_lower (py_strip answer) \<noteq> ''y''
           then (Inl (SysExit 0), emit (Print InfoAbortedExec) s1)
           else exec_tail w s1)"
    using s1(1) by (simp add: exec_gate_def bind_def print_def sys_exit_def return_def)
  with s1 show ?thesis by blast
qed

lemma plan_gate_result:
  assumes "stdin s = answer # rest"
  shows "\<exists>s1. stdin s1 = rest \<and> files s1 = files s
      \<and> trace s1 = trace s @ [Ask AskPlan]
      \<and> plan_gate w plan_text user_request s =
          (if py_lower (py_strip answer) \<noteq> ''y''
           then (Inl (SysExit 0), emit (Print InfoAbortedPlan) s1)
           else code_tail w plan_text user_request s1)"
proof -
  obtain s1 where s1: "py_input AskPlan s = (Inr answer, s1)"
    "stdin s1 = rest" "files s1 = files s" "trace s1 = trace s @ [Ask AskPlan]"
    using py_input_line[OF assms] by blast
  have "plan_gate w plan_text user_request s =
          (if py_lower (py_strip answer) \<noteq> ''y''
           then (Inl (SysExit 0), emit (Print InfoAbortedPlan) s1)
           else code_tail w plan_text user_request s1)"
    using s1(1) by (simp add: plan_gate_def bind_def print_def sys_exit_def return_def)
  with s1 show ?thesis by blast
qed

lemma persist_tail_result:
  "\<exists>s1. stdin s1 = stdin s
      \<and> files s1 = persisted_files w user_request plan_text code_text (files s)
      \<and> trace s1 = trace s @
          [Print (CodePhaseOutput code_text),
           OpenWrite ''generated_prompt.json'',
           Print (if write_fault w (os_path_join (getcwd w) ''generated_prompt.json'') = None
                  then InfoPromptsSaved ''generated_prompt.json'' else ErrorSavePrompts),
           OpenWrite (script_target w),
           Print (if write_fault w (os_path_join (getcwd w) (script_target w)) = None
                  then InfoCodeSaved (script_target w) else ErrorWriteCode (script_target w))]
      \<and> persist_tail w plan_text user_request code_text s = exec_gate w s1"
  unfolding persist_tail_def bind_print
  by (rule exI[of _ "snd (save_code_to_file w code_text ''generated_script.py''
        (snd (save_prompt_to_file w plan_text code_text user_request ''generated_prompt.json''
          (emit (Print (CodePhaseOutput code_text)) s))))"])
     (simp add: bind_def save_prompt_to_file_eq save_code_to_file_eq persisted_files_def)

lemma plan_phase_fields:
  assumes "ollama w ollama_cmd (plan_prompt user_request) = Completed 0 out err"
  shows "\<exists>s1. plan_phase w user_request s = (Inr (py_strip out), s1)
      \<and> stdin s1 = stdin s \<and> files s1 = files s
      \<and> trace s1 = trace s @ [Print InfoGeneratingPlan,
            Popen ollama_cmd (plan_prompt user_request)] @ debug_events err"
  using plan_phase_ok[of w user_request out err s] assms
  by (simp add: ollama_cmd_def debug_events_def)

lemma code_phase_fields:
  assumes "ollama w ollama_cmd (code_prompt plan_text user_request) = Completed 0 out err"
  shows "\<exists>s1. code_phase w plan_text user_request s = (Inr (clean_code (py_strip out)), s1)
      \<and> stdin s1 = stdin s \<and> files s1 = files s
      \<and> trace s1 = trace s @ [Print InfoGeneratingCode,
            Popen ollama_cmd (code_prompt plan_text user_request)] @ debug_events err"
  using code_phase_ok[of w plan_text user_request out err s] assms
  by (simp add: ollama_cmd_def debug_events_def)

lemma main_to_plan_gate:
  assumes "argv w = prog # user_request # extra"
    and "ollama w ollama_cmd (plan_prompt user_request) = Completed 0 out err"
    and "stdin s = answer # rest"
  shows "\<exists>s1. stdin s1 = rest \<and> files s1 = files s
      \<and> trace s1 = trace s @ events_to_plan_gate w user_request out err
      \<and> main w s =
          (if py_lower (py_strip answer) \<noteq> ''y''
           then (Inl (SysExit 0), emit (Print InfoAbortedPlan) s1)
           else code_tail w (py_strip out) user_request s1)"
proof -
  let ?s0 = "emit (Print (InfoWorkingDir (getcwd w))) s"
  obtain s1 where s1: "plan_phase w user_request ?s0 = (Inr (py_strip out), s1)"
    "stdin s1 = stdin ?s0" "files s1 = files ?s0"
    "trace s1 = trace ?s0 @ [Print InfoGeneratingPlan,
            Popen ollama_cmd (plan_prompt user_request)] @ debug_events err"
    using plan_phase_fields[OF assms(2)] by blast
  let ?s2 = "emit (Print (PlanPhaseOutput (py_strip out))) s1"
  have "stdin ?s2 = answer # rest"
    using s1(2) assms(3) by simp
  then obtain s3 where s3: "stdin s3 = rest" "files s3 = files ?s2"
    "trace s3 = trace ?s2 @ [Ask AskPlan]"
    "plan_gate w (py_strip out) user_request ?s2 =
          (if py_lower (py_strip answer) \<noteq> ''y''
           then (Inl (SysExit 0), emit (Print InfoAbortedPlan) s3)
           else code_tail w (py_strip out) user_request s3)"
    using plan_gate_result by blast
  have "main w s = plan_gate w (py_strip out) user_request ?s2"
    using s1(1) by (simp add: main_unfold[OF assms(1)] plan_tail_def bind_def print_def)
  moreover have "trace s3 = trace s @ events_to_plan_gate w user_request out err"
    using s3(3) s1(4) by (simp add: events_to_plan_gate_def)
  moreover have "files s3 = files s"
    using s3(2) s1(3) by simp
  ultimately show ?thesis
    using s3(1,4) by auto
qed

lemma code_tail_to_exec_gate:
  assumes "ollama w ollama_cmd (code_prompt plan_text user_request) = Completed 0 out err"
    and "stdin s = answer # rest"
  shows "\<exists>s1. stdin s1 = rest
      \<and> files s1 = persisted_files w user_request plan_text (clean_code (py_strip out)) (files s)
      \<and> trace s1 = trace s @ events_to_exec_gate w user_request plan_text out err
      \<and> code_tail w plan_text user_request s =
          (if py_lower (py_strip answer) \<noteq> ''y''
           then (Inl (SysExit 0), emit (Print InfoAbortedExec) s1)
           else exec_tail w s1)"
proof -
  obtain s1 where s1:
    "code_phase w plan_text user_request s = (Inr (clean_code (py_strip out)), s1)"
    "stdin s1 = stdin s" "files s1 = files s"
    "trace s1 = trace s @ [Print InfoGeneratingCode,
            Popen ollama_cmd (code_prompt plan_text user_request)] @ debug_events err"
    using code_phase_fields[OF assms(1)] by blast
  obtain s2 where s2: "stdin s2 = stdin s1"
    "files s2 = persisted_files w user_request plan_text (clean_code (py_strip out)) (files s1)"
    "trace s2 = trace s1 @
          [Print (CodePhaseOutput (clean_code (py_strip out))),
           OpenWrite ''generated_prompt.json'',
           Print (if write_fault w (os_path_join (getcwd w) ''generated_prompt.json'') = None
                  then InfoPromptsSaved ''generated_prompt.json'' else ErrorSavePrompts),
           OpenWrite (script_target w),
           Print (if write_fault w (os_path_join (getcwd w) (script_target w)) = None
                  then InfoCodeSaved (script_target w) else ErrorWriteCode (script_target w))]"
    "persist_tail w plan_text user_request (clean_code (py_strip out)) s1 = exec_gate w s2"
    using persist_tail_result by blast
  have "stdin s2 = answer # rest"
    using s2(1) s1(2) assms(2) by simp
  then obtain s3 where s3: "stdin s3 = rest" "files s3 = files s2"
    "trace s3 = trace s2 @ [Ask (AskExec ''generated_script.py'')]"
    "exec_gate w s2 =
          (if py_lower (py_strip answer) \<noteq> ''y''
           then (Inl (SysExit 0), emit (Print InfoAbortedExec) s3)
           else exec_tail w s3)"
    using exec_gate_result by blast
  have "code_tail w plan_text user_request s = exec_gate w s2"
    using s1(1) s2(4) by (simp add: code_tail_def bind_def)
  moreover have "trace s3 = trace s @ events_to_exec_gate w user_request plan_text out err"
    using s3(3) s2(3) s1(4) by (simp add: events_to_exec_gate_def)
  moreover have "files s3 =
      persisted_files w user_request plan_text (clean_code (py_strip out)) (files s)"
    using s3(2) s2(2) s1(3) by simp
  ultimately show ?thesis
    using s3(1,4) by auto
qed

lemma lower_char_eq_y:
  "lower_char c = CHR ''y'' \<longleftrightarrow> c = CHR ''y'' \<or> c = CHR ''Y''"
proof -
  let ?n = "of_char c :: nat"
  have cy: "c = CHR ''y'' \<longleftrightarrow> ?n = 121"
    using of_char_eq_iff[of c "CHR ''y''", where ?'a = nat] by simp
  have cY: "c = CHR ''Y'' \<longleftrightarrow> ?n = 89"
    using of_char_eq_iff[of c "CHR ''Y''", where ?'a = nat] by simp
  have up: "char_of (?n + 32) = CHR ''y'' \<longleftrightarrow> ?n = 89"
    if "?n \<le> 222"
    using that by (simp add: char_of_eq_iff take_bit_eq_mod) 
  show ?thesis
    unfolding cy cY lower_char_def Let_def
    using up by (auto simp: cy)
qed

lemma py_lower_eq_y: "py_lower t = ''y'' \<longleftrightarrow> t = ''y'' \<or> t = ''Y''"
  by (cases t) (auto simp: py_lower_def lower_char_eq_y)

lemma lower_examples:
  "py_lower (py_strip ''Y'') = ''y''"
  "py_lower (py_strip ''  y  '') = ''y''"
  "py_lower (py_strip ''yes'') \<noteq> ''y''"
  "py_lower (py_strip ''n'') \<noteq> ''y''"
  by (simp_all add: py_lower_eq_y py_strip_def py_lstrip_def py_rstrip_def isspace_def)

lemma example_world_fields [simp]:
  "argv (example_world args dir model faults rc) = args"
  "script_file (example_world args dir model faults rc) = ''/opt/agent/local_code_ai_agent.py''"
  "executable (example_world args dir model faults rc) = ''/usr/bin/python3''"
  "getcwd (example_world args dir model faults rc) = dir"
  "ollama (example_world args dir model faults rc) = model"
  "write_fault (example_world args dir model faults rc) = faults"
  "run_python (example_world args dir model faults rc) = (\<lambda>cmd fs. (Returned rc, fs))"
  by (simp_all add: example_world_def)

lemma initial_state_fields [simp]:
  "stdin (initial_state inputs) = inputs"
  "files (initial_state inputs) = Map.empty"
  "trace (initial_state inputs) = []"
  by (simp_all add: initial_state_def)

lemma example_model_plan [simp]:
  "example_model cmd (plan_prompt r) = Completed 0 example_plan []"
  by (simp add: example_model_def plan_prompt_def)

lemma example_model_code [simp]:
  "example_model cmd (code_prompt p r) = Completed 0 example_response []"
  by (simp add: example_model_def code_prompt_def NL_def)

lemma example_code_clean [simp]: "clean_code (py_strip example_response) = example_code"
  by (simp add: example_response_def example_code_def clean_code_def py_strip_def py_lstrip_def
      py_rstrip_def isspace_def NL_def)

lemma example_plan_strip [simp]: "py_strip example_plan = example_plan"
  by (simp add: example_plan_def py_strip_def py_lstrip_def py_rstrip_def isspace_def)

lemma home_script_target [simp]:
  "script_target (example_world args ''/home/user'' model faults rc) = ''/home/user/generated_script.py''"
  by (simp add: script_target_def os_path_abspath_def os_path_normpath_def os_path_join_def suffix_def)

lemma projections_debug [simp]:
  "popens (debug_events err) = []" "writes (debug_events err) = []"
  "subprocess_runs (debug_events err) = []" "asks (debug_events err) = []"
  by (simp_all add: debug_events_def)

lemma projections_plan_gate [simp]:
  "popens (events_to_plan_gate w r out err) = [plan_prompt r]"
  "writes (events_to_plan_gate w r out err) = []"
  "subprocess_runs (events_to_plan_gate w r out err) = []"
  "asks (events_to_plan_gate w r out err) = [AskPlan]"
  by (simp_all add: events_to_plan_gate_def popens_append writes_append subprocess_runs_append
      asks_append)

lemma projections_exec_gate [simp]:
  "popens (events_to_exec_gate w r p out err) = [code_prompt p r]"
  "writes (events_to_exec_gate w r p out err) = [''generated_prompt.json'', script_target w]"
  "subprocess_runs (events_to_exec_gate w r p out err) = []"
  "asks (events_to_exec_gate w r p out err) = [AskExec ''generated_script.py'']"
  by (simp_all add: events_to_exec_gate_def popens_append writes_append subprocess_runs_append
      asks_append)

lemma run_SysExit: "main w s = (Inl (SysExit code), s') \<Longrightarrow> run w s = (code, s')"
  by (simp add: run_def)

lemma plan_phase_not_found:
  assumes "ollama w ollama_cmd (plan_prompt user_request) = PopenNotFound"
  shows "\<exists>s1. plan_phase w user_request s = (Inl (SysExit 1), s1)
      \<and> stdin s1 = stdin s \<and> files s1 = files s
      \<and> trace s1 = trace s @ [Print InfoGeneratingPlan,
            Popen ollama_cmd (plan_prompt user_request), PrintErr ErrorOllamaNotFound]"
  using query_ollama_not_found[of w OLLAMA_MODEL "plan_prompt user_request"] assms
  by (simp add: plan_phase_def ollama_cmd_def bind_def print_def emit_def)

lemma code_phase_not_found:
  assumes "ollama w ollama_cmd (code_prompt plan_text user_request) = PopenNotFound"
  shows "\<exists>s1. code_phase w plan_text user_request s = (Inl (SysExit 1), s1)
      \<and> stdin s1 = stdin s \<and> files s1 = files s
      \<and> trace s1 = trace s @ [Print InfoGeneratingCode,
            Popen ollama_cmd (code_prompt plan_text user_request), PrintErr ErrorOllamaNotFound]"
  using query_ollama_not_found[of w OLLAMA_MODEL "code_prompt plan_text user_request"] assms
  by (simp add: code_phase_def ollama_cmd_def bind_def print_def emit_def)

lemma vanishing_model_plan [simp]:
  "vanishing_model cmd (plan_prompt r) = Completed 0 example_plan []"
  by (simp add: vanishing_model_def plan_prompt_def)

lemma vanishing_model_code [simp]:
  "vanishing_model cmd (code_prompt p r) = PopenNotFound"
  by (simp add: vanishing_model_def code_prompt_def NL_def)

lemma main_to_exec_gate:
  assumes "argv w = prog # user_request # extra"
    and "ollama w ollama_cmd (plan_prompt user_request) = Completed 0 out err"
    and "ollama w ollama_cmd (code_prompt (py_strip out) user_request) = Completed 0 out' err'"
    and "stdin s = answer # answer' # rest"
    and "py_lower (py_strip answer) = ''y''"
  shows "\<exists>s1. stdin s1 = rest
      \<and> files s1 = persisted_files w user_request (py_strip out) (clean_code (py_strip out'))
            (files s)
      \<and> trace s1 = trace s @ events_to_plan_gate w user_request out err
            @ events_to_exec_gate w user_request (py_strip out) out' err'
      \<and> main w s =
          (if py_lower (py_strip answer') \<noteq> ''y''
           then (Inl (SysExit 0), emit (Print InfoAbortedExec) s1)
           else exec_tail w s1)"
proof -
  obtain s1 where s1: "stdin s1 = answer' # rest"
    "trace s1 = trace s @ events_to_plan_gate w user_request out err"
    "main w s = code_tail w (py_strip out) user_request s1"
    "files s1 = files s"
    using main_to_plan_gate[OF assms(1,2,4)] assms(5) by auto
  obtain s2 where s2: "stdin s2 = rest"
    "trace s2 = trace s1 @ events_to_exec_gate w user_request (py_strip out) out' err'"
    "files s2 = persisted_files w user_request (py_strip out) (clean_code (py_strip out'))
            (files s1)"
    "code_tail w (py_strip out) user_request s1 =
          (if py_lower (py_strip answer') \<noteq> ''y''
           then (Inl (SysExit 0), emit (Print InfoAbortedExec) s2)
           else exec_tail w s2)"
    using code_tail_to_exec_gate[OF assms(3) s1(1)] by blast
  show ?thesis
    using s1(2,3,4) s2 by (intro exI[of _ s2]) simp
qed

lemma grows_exec_tail: "grows (exec_tail w)"
  unfolding exec_tail_def by (intro grows_intros)

lemma grows_exec_gate: "grows (exec_gate w)"
  unfolding exec_gate_def by (intro grows_intros grows_exec_tail)

lemma grows_persist_tail: "grows (persist_tail w plan_text user_request code_text)"
  unfolding persist_tail_def by (intro grows_intros grows_exec_gate)

lemma grows_code_tail: "grows (code_tail w plan_text user_request)"
  unfolding code_tail_def by (intro grows_intros grows_persist_tail)

lemma grows_plan_gate: "grows (plan_gate w plan_text user_request)"
  unfolding plan_gate_def by (intro grows_intros grows_code_tail)

lemma bind_starts:
  assumes m: "m s = (r1, s1)" and t: "trace s1 = trace s @ E @ evs1"
    and f: "\<And>v. grows (f v)"
  shows "\<exists>r s' evs. bind m f s = (r, s') \<and> trace s' = trace s @ E @ evs"
proof (cases r1)
  case (Inl e)
  then have "bind m f s = (Inl e, s1)"
    using m by (simp add: bind_def)
  with t show ?thesis by blast
next
  case (Inr v)
  obtain r2 s2 where r2: "f v s1 = (r2, s2)"
    by (cases "f v s1")
  then obtain evs2 where "trace s2 = trace s1 @ evs2"
    using growsD[OF f] by blast
  then have "trace s2 = trace s @ E @ (evs1 @ evs2)"
    using t by simp
  moreover have "bind m f s = (r2, s2)"
    using m Inr r2 by (simp add: bind_def)
  ultimately show ?thesis by blast
qed

lemma query_ollama_starts:
  "\<exists>r s' evs. query_ollama w prompt model s = (r, s')
     \<and> trace s' = trace s @ [Popen [''ollama'', ''run'', model] prompt] @ evs"
  by (cases "ollama w [''ollama'', ''run'', model] prompt")
     (simp_all add: query_ollama_def io_defs Let_def)

lemma plan_phase_starts:
  "\<exists>r s' evs. plan_phase w user_request s = (r, s')
     \<and> trace s' = trace s @ [Print InfoGeneratingPlan,
           Popen ollama_cmd (plan_prompt user_request)] @ evs"
proof -
  obtain r s' evs where
    "query_ollama w (plan_prompt user_request) OLLAMA_MODEL (emit (Print InfoGeneratingPlan) s)
       = (r, s')"
    "trace s' = trace (emit (Print InfoGeneratingPlan) s)
       @ [Popen [''ollama'', ''run'', OLLAMA_MODEL] (plan_prompt user_request)] @ evs"
    using query_ollama_starts by blast
  then show ?thesis
    by (simp add: plan_phase_def bind_def print_def ollama_cmd_def)
qed

lemma code_phase_starts:
  "\<exists>r s' evs. code_phase w plan_text user_request s = (r, s')
     \<and> trace s' = trace s @ [Print InfoGeneratingCode,
           Popen ollama_cmd (code_prompt plan_text user_request)] @ evs"
proof -
  obtain r s' evs where q:
    "query_ollama w (code_prompt plan_text user_request) OLLAMA_MODEL
       (emit (Print InfoGeneratingCode) s) = (r, s')"
    "trace s' = trace (emit (Print InfoGeneratingCode) s)
       @ [Popen [''ollama'', ''run'', OLLAMA_MODEL] (code_prompt plan_text user_request)] @ evs"
    using query_ollama_starts by blast
  show ?thesis
    using q by (cases r) (simp_all add: code_phase_def bind_def print_def return_def ollama_cmd_def)
qed

lemma code_tail_starts:
  "\<exists>r s' evs. code_tail w plan_text user_request s = (r, s')
     \<and> trace s' = trace s @ [Print InfoGeneratingCode,
           Popen ollama_cmd (code_prompt plan_text user_request)] @ evs"
proof -
  obtain r1 s1 evs1 where "code_phase w plan_text user_request s = (r1, s1)"
    "trace s1 = trace s @ [Print InfoGeneratingCode,
           Popen ollama_cmd (code_prompt plan_text user_request)] @ evs1"
    using code_phase_starts by blast
  then show ?thesis
    unfolding code_tail_def by (rule bind_starts) (rule grows_persist_tail)
qed

lemma plan_tail_starts:
  "\<exists>r s' evs. plan_tail w user_request s = (r, s')
     \<and> trace s' = trace s @ [Print InfoGeneratingPlan,
           Popen ollama_cmd (plan_prompt user_request)] @ evs"
proof -
  obtain r1 s1 evs1 where "plan_phase w user_request s = (r1, s1)"
    "trace s1 = trace s @ [Print InfoGeneratingPlan,
           Popen ollama_cmd (plan_prompt user_request)] @ evs1"
    using plan_phase_starts by blast
  then show ?thesis
    unfolding plan_tail_def by (rule bind_starts) (intro grows_intros grows_plan_gate)
qed

lemma run_starts:
  assumes "main w s = (r, s1)" and "trace s1 = trace s @ E @ evs"
  shows "\<exists>code s' evs'. run w s = (code, s') \<and> trace s' = trace s @ E @ evs'"
proof (cases r)
  case (Inr v)
  then have "run w s = (0, s1)" using assms(1) by (simp add: run_def)
  with assms(2) show ?thesis by blast
next
  case (Inl e)
  show ?thesis
  proof (cases e)
    case (SysExit n)
    then have "run w s = (n, s1)" using assms(1) Inl by (simp add: run_def)
    with assms(2) show ?thesis by blast
  next
    case EOFError
    then have "run w s = (1, emit (PrintErr Traceback) s1)"
      using assms(1) Inl by (simp add: run_def)
    moreover have "trace (emit (PrintErr Traceback) s1) = trace s @ E @ (evs @ [PrintErr Traceback])"
      using assms(2) by simp
    ultimately show ?thesis by blast
  qed
qed

section \<open>A missing model runner is fatal\<close>

lemma silent_fatal: "silent m \<Longrightarrow> fatal_if_not_found m"
  unfolding silent_def fatal_if_not_found_def by (metis same_append_eq)

lemma inert_grows: "inert m \<Longrightarrow> grows m"
  unfolding inert_def grows_def prefix_def by metis

lemma silent_grows: "silent m \<Longrightarrow> grows m"
  unfolding silent_def grows_def prefix_def by metis

lemma inert_return: "inert (return v)"
  by (simp add: inert_def return_def)

lemma inert_sys_exit: "inert (sys_exit n)"
  by (simp add: inert_def sys_exit_def)

lemma inert_print: "inert (print m)"
  by (simp add: inert_def print_def)

lemma inert_print_err: "inert (print_err m)"
  by (simp add: inert_def print_err_def)

lemma inert_py_input: "inert (py_input q)"
  by (simp add: inert_def py_input_def Let_def emit_def split: list.split)

lemma inert_if: "inert a \<Longrightarrow> inert b \<Longrightarrow> inert (if c then a else b)"
  by simp

lemma inert_bind:
  assumes m: "inert m" and f: "\<And>v. inert (f v)"
  shows "inert (bind m f)"
  unfolding inert_def
proof (intro allI)
  fix s
  obtain r s1 where ms: "m s = (r, s1)" by (cases "m s")
  obtain e1 where e1: "files s1 = files s" "trace s1 = trace s @ e1" "writes e1 = []"
    using m ms unfolding inert_def by (metis snd_conv)
  show "files (snd (bind m f s)) = files s
       \<and> (\<exists>evs. trace (snd (bind m f s)) = trace s @ evs \<and> writes evs = [])"
  proof (cases r)
    case (Inl e)
    then show ?thesis using ms e1 by (simp add: bind_def)
  next
    case (Inr v)
    obtain e2 where e2: "files (snd (f v s1)) = files s1"
      "trace (snd (f v s1)) = trace s1 @ e2" "writes e2 = []"
      using f unfolding inert_def by blast
    have "trace (snd (f v s1)) = trace s @ (e1 @ e2)" "writes (e1 @ e2) = []"
      using e1 e2 by (simp_all add: writes_append)
    then show ?thesis
      using Inr ms e1(1) e2(1) by (auto simp: bind_def)
  qed
qed

lemma inert_query_ollama: "inert (query_ollama w prompt model)"
  by (cases "ollama w [''ollama'', ''run'', model] prompt")
     (simp_all add: inert_def query_ollama_def io_defs Let_def)

lemma inert_plan_phase: "inert (plan_phase w user_request)"
  unfolding plan_phase_def Let_def by (intro inert_bind inert_print inert_query_ollama)

lemma inert_code_phase: "inert (code_phase w plan_text user_request)"
  unfolding code_phase_def Let_def
  by (intro inert_bind inert_print inert_query_ollama inert_return)

lemma silent_return: "silent (return v)"
  by (simp add: silent_def return_def)

lemma silent_sys_exit: "silent (sys_exit n)"
  by (simp add: silent_def sys_exit_def)

lemma silent_print: "silent (print m)"
  by (simp add: silent_def print_def)

lemma silent_py_input: "silent (py_input q)"
  by (simp add: silent_def py_input_def Let_def emit_def split: list.split)

lemma silent_if: "silent a \<Longrightarrow> silent b \<Longrightarrow> silent (if c then a else b)"
  by simp

lemma silent_bind:
  assumes m: "silent m" and f: "\<And>v. silent (f v)"
  shows "silent (bind m f)"
  unfolding silent_def
proof (intro allI)
  fix s
  obtain r s1 where ms: "m s = (r, s1)" by (cases "m s")
  obtain e1 where e1: "trace s1 = trace s @ e1" "PrintErr ErrorOllamaNotFound \<notin> set e1"
    using m ms unfolding silent_def by (metis snd_conv)
  show "\<exists>evs. trace (snd (bind m f s)) = trace s @ evs \<and> PrintErr ErrorOllamaNotFound \<notin> set evs"
  proof (cases r)
    case (Inl e)
    then show ?thesis using ms e1 by (auto simp: bind_def)
  next
    case (Inr v)
    obtain e2 where e2: "trace (snd (f v s1)) = trace s1 @ e2"
      "PrintErr ErrorOllamaNotFound \<notin> set e2"
      using f unfolding silent_def by blast
    have "trace (snd (f v s1)) = trace s @ (e1 @ e2)" "PrintErr ErrorOllamaNotFound \<notin> set (e1 @ e2)"
      using e1 e2 by simp_all
    then show ?thesis
      using Inr ms by (auto simp: bind_def)
  qed
qed

lemma silent_save_prompt_to_file: "silent (save_prompt_to_file w plan code req filename)"
  by (simp add: silent_def save_prompt_to_file_eq)

lemma silent_save_code_to_file: "silent (save_code_to_file w code filename)"
  by (simp add: silent_def save_code_to_file_eq)

lemma silent_execute_script: "silent (execute_script w path)"
  by (simp add: silent_def execute_script_cases)

lemma silent_persist_tail: "silent (persist_tail w plan_text user_request code_text)"
  unfolding persist_tail_def exec_gate_def exec_tail_def
  by (intro silent_bind silent_if silent_print silent_py_input silent_sys_exit silent_return
      silent_save_prompt_to_file silent_save_code_to_file silent_execute_script)

lemma fatal_bind:
  assumes i: "inert m" and m: "fatal_if_not_found m"
    and g: "\<And>v. grows (f v)" and f: "\<And>v. fatal_if_not_found (f v)"
  shows "fatal_if_not_found (bind m f)"
  unfolding fatal_if_not_found_def
proof (intro allI impI)
  fix s evs
  assume a: "trace (snd (bind m f s)) = trace s @ evs \<and> PrintErr ErrorOllamaNotFound \<in> set evs"
  obtain r s1 where ms: "m s = (r, s1)" by (cases "m s")
  obtain e1 where e1: "files s1 = files s" "trace s1 = trace s @ e1" "writes e1 = []"
    using i ms unfolding inert_def by (metis snd_conv)
  show "fst (bind m f s) = Inl (SysExit 1) \<and> writes evs = [] \<and> files (snd (bind m f s)) = files s"
  proof (cases r)
    case (Inl e)
    then have b: "bind m f s = (Inl e, s1)"
      using ms by (simp add: bind_def)
    have "trace (snd (m s)) = trace s @ evs"
      using a ms unfolding b by simp
    then have "fst (m s) = Inl (SysExit 1) \<and> writes evs = [] \<and> files (snd (m s)) = files s"
      using a m unfolding fatal_if_not_found_def by blast
    then show ?thesis
      unfolding b using ms Inl by simp
  next
    case (Inr v)
    have b: "bind m f s = f v s1"
      using ms Inr by (simp add: bind_def)
    obtain e2 where e2: "trace (snd (f v s1)) = trace s1 @ e2"
      using g unfolding grows_def prefix_def by blast
    have evs: "evs = e1 @ e2"
      using a e1(2) e2 unfolding b by simp
    have "PrintErr ErrorOllamaNotFound \<notin> set e1"
    proof
      assume "PrintErr ErrorOllamaNotFound \<in> set e1"
      then have "fst (m s) = Inl (SysExit 1)"
        using m e1(2) ms unfolding fatal_if_not_found_def by (metis snd_conv)
      then show False using ms Inr by simp
    qed
    then have "PrintErr ErrorOllamaNotFound \<in> set e2"
      using a evs by auto
    then have "fst (f v s1) = Inl (SysExit 1) \<and> writes e2 = [] \<and> files (snd (f v s1)) = files s1"
      using f e2 unfolding fatal_if_not_found_def by blast
    then show ?thesis
      unfolding b evs using e1 by (simp add: writes_append)
  qed
qed

lemma fatal_query_ollama: "fatal_if_not_found (query_ollama w prompt model)"
  by (cases "ollama w [''ollama'', ''run'', model] prompt")
     (auto simp: fatal_if_not_found_def query_ollama_def io_defs Let_def)

lemma fatal_print: "fatal_if_not_found (print m)"
  by (rule silent_fatal) (rule silent_print)

lemma fatal_plan_phase: "fatal_if_not_found (plan_phase w user_request)"
  unfolding plan_phase_def Let_def
  by (rule fatal_bind[OF inert_print fatal_print grows_query_ollama fatal_query_ollama])

lemma fatal_code_phase: "fatal_if_not_found (code_phase w plan_text user_request)"
proof -
  have "fatal_if_not_found
      (bind (query_ollama w (code_prompt plan_text user_request) OLLAMA_MODEL)
         (\<lambda>code_response. return (clean_code code_response)))"
    by (rule fatal_bind[OF inert_query_ollama fatal_query_ollama grows_return
          silent_fatal[OF silent_return]])
  moreover have "grows
      (bind (query_ollama w (code_prompt plan_text user_request) OLLAMA_MODEL)
         (\<lambda>code_response. return (clean_code code_response)))"
    by (intro grows_intros)
  ultimately show ?thesis
    unfolding code_phase_def Let_def
    by (intro fatal_bind[OF inert_print fatal_print])
qed

lemma fatal_code_tail: "fatal_if_not_found (code_tail w plan_text user_request)"
  unfolding code_tail_def
  by (rule fatal_bind[OF inert_code_phase fatal_code_phase grows_persist_tail
        silent_fatal[OF silent_persist_tail]])

lemma inert_gate: "inert (if c then bind (print m) (\<lambda>_. sys_exit n) else return ())"
  by (intro inert_if inert_bind inert_print inert_sys_exit inert_return)

lemma silent_gate: "silent (if c then bind (print m) (\<lambda>_. sys_exit n) else return ())"
  by (intro silent_if silent_bind silent_print silent_sys_exit silent_return)

lemma fatal_plan_gate: "fatal_if_not_found (plan_gate w plan_text user_request)"
proof -
  have 1: "fatal_if_not_found
      (bind (if py_lower (py_strip answer) \<noteq> ''y''
             then bind (print InfoAbortedPlan) (\<lambda>_. sys_exit 0) else return ())
         (\<lambda>_. code_tail w plan_text user_request))" for answer
    by (rule fatal_bind[OF inert_gate silent_fatal[OF silent_gate] grows_code_tail
          fatal_code_tail])
  have 2: "grows
      (bind (if py_lower (py_strip answer) \<noteq> ''y''
             then bind (print InfoAbortedPlan) (\<lambda>_. sys_exit 0) else return ())
         (\<lambda>_. code_tail w plan_text user_request))" for answer
    by (intro grows_intros grows_code_tail)
  show ?thesis
    unfolding plan_gate_def
    by (rule fatal_bind[OF inert_py_input silent_fatal[OF silent_py_input] 2 1])
qed

lemma grows_plan_tail: "grows (plan_tail w user_request)"
  unfolding plan_tail_def by (intro grows_intros grows_plan_gate)

lemma fatal_plan_tail: "fatal_if_not_found (plan_tail w user_request)"
proof -
  have 1: "fatal_if_not_found
      (bind (print (PlanPhaseOutput plan_text)) (\<lambda>_. plan_gate w plan_text user_request))"
    for plan_text
    by (rule fatal_bind[OF inert_print fatal_print grows_plan_gate fatal_plan_gate])
  have 2: "grows
      (bind (print (PlanPhaseOutput plan_text)) (\<lambda>_. plan_gate w plan_text user_request))"
    for plan_text
    by (intro grows_intros grows_plan_gate)
  show ?thesis
    unfolding plan_tail_def
    by (rule fatal_bind[OF inert_plan_phase fatal_plan_phase 2 1])
qed

lemma fatal_main: "fatal_if_not_found (main w)"
proof (cases "length (argv w) < 2")
  case True
  then have "main w = bind (print (Usage (os_path_basename (script_file w)))) (\<lambda>_. sys_exit 1)"
    by (simp add: main_def)
  moreover have "fatal_if_not_found
      (bind (print (Usage (os_path_basename (script_file w)))) (\<lambda>_. sys_exit 1 :: unit io))"
    by (intro silent_fatal silent_bind silent_print silent_sys_exit)
  ultimately show ?thesis by simp
next
  case False
  then obtain prog user_request extra where "argv w = prog # user_request # extra"
    by (cases "argv w"; cases "tl (argv w)") auto
  then have "main w = bind (print (InfoWorkingDir (getcwd w))) (\<lambda>_. plan_tail w user_request)"
    by (rule main_unfold)
  moreover have "fatal_if_not_found
      (bind (print (InfoWorkingDir (getcwd w))) (\<lambda>_. plan_tail w user_request))"
    by (rule fatal_bind[OF inert_print fatal_print grows_plan_tail fatal_plan_tail])
  ultimately show ?thesis by simp
qed

lemma not_found_is_fatal:
  assumes "run w s = (code, s')"
    and "trace s' = trace s @ evs"
    and "PrintErr ErrorOllamaNotFound \<in> set evs"
  shows "code = 1 \<and> writes evs = [] \<and> files s' = files s"
proof -
  obtain r s1 where ms: "main w s = (r, s1)" by (cases "main w s")
  obtain e1 where e1: "trace s1 = trace s @ e1"
    using growsD[OF grows_main ms] by blast
  have nf: "PrintErr ErrorOllamaNotFound \<in> set e1"
  proof (cases "r = Inl EOFError")
    case True
    then have "s' = emit (PrintErr Traceback) s1"
      using assms(1) ms by (simp add: run_def)
    then have "evs = e1 @ [PrintErr Traceback]"
      using assms(2) e1 by simp
    then show ?thesis using assms(3) by auto
  next
    case False
    then have "s' = s1"
      using assms(1) ms by (cases r; cases "projl r") (auto simp: run_def)
    then show ?thesis using assms(2,3) e1 by simp
  qed
  have "fst (main w s) = Inl (SysExit 1) \<and> writes e1 = [] \<and> files (snd (main w s)) = files s"
    using fatal_main e1 nf ms unfolding fatal_if_not_found_def by (metis snd_conv)
  then have r: "r = Inl (SysExit 1)" and w: "writes e1 = []" and f: "files s1 = files s"
    using ms by simp_all
  have "run w s = (1, s1)"
    using ms r by (simp add: run_def)
  then show ?thesis
    using assms(1,2) e1 w f by simp
qed

lemma not_found_at_call:
  assumes "argv w = prog # user_request # extra"
  shows
   "(ollama w ollama_cmd (plan_prompt user_request) = PopenNotFound \<longrightarrow>
      (\<exists>s'. run w s = (1, s') \<and> files s' = files s \<and> writes (trace s') = writes (trace s)
         \<and> trace s' = trace s @ [Print (InfoWorkingDir (getcwd w)), Print InfoGeneratingPlan,
              Popen ollama_cmd (plan_prompt user_request), PrintErr ErrorOllamaNotFound]))
    \<and> (ollama w ollama_cmd (plan_prompt user_request) = Completed 0 out err
        \<and> stdin s = answer # rest \<and> py_lower (py_strip answer) = ''y''
        \<and> ollama w ollama_cmd (code_prompt (py_strip out) user_request) = PopenNotFound \<longrightarrow>
      (\<exists>s'. run w s = (1, s') \<and> files s' = files s \<and> writes (trace s') = writes (trace s)
         \<and> trace s' = trace s @ events_to_plan_gate w user_request out err
              @ [Print InfoGeneratingCode,
                 Popen ollama_cmd (code_prompt (py_strip out) user_request),
                 PrintErr ErrorOllamaNotFound]))"
proof (intro conjI impI)
  assume nf: "ollama w ollama_cmd (plan_prompt user_request) = PopenNotFound"
  let ?s0 = "emit (Print (InfoWorkingDir (getcwd w))) s"
  obtain s1 where s1: "plan_phase w user_request ?s0 = (Inl (SysExit 1), s1)"
    "files s1 = files ?s0"
    "trace s1 = trace ?s0 @ [Print InfoGeneratingPlan,
            Popen ollama_cmd (plan_prompt user_request), PrintErr ErrorOllamaNotFound]"
    using plan_phase_not_found[OF nf] by blast
  have "main w s = (Inl (SysExit 1), s1)"
    using s1(1) by (simp add: main_unfold[OF assms] plan_tail_def bind_def print_def)
  then have "run w s = (1, s1)"
    by (rule run_SysExit)
  then show "\<exists>s'. run w s = (1, s') \<and> files s' = files s \<and> writes (trace s') = writes (trace s)
         \<and> trace s' = trace s @ [Print (InfoWorkingDir (getcwd w)), Print InfoGeneratingPlan,
              Popen ollama_cmd (plan_prompt user_request), PrintErr ErrorOllamaNotFound]"
    using s1(2,3) by (simp add: writes_append)
next
  assume a: "ollama w ollama_cmd (plan_prompt user_request) = Completed 0 out err
        \<and> stdin s = answer # rest \<and> py_lower (py_strip answer) = ''y''
        \<and> ollama w ollama_cmd (code_prompt (py_strip out) user_request) = PopenNotFound"
  obtain s1 where s1: "files s1 = files s"
    "trace s1 = trace s @ events_to_plan_gate w user_request out err"
    "main w s = code_tail w (py_strip out) user_request s1"
    using main_to_plan_gate[OF assms, of out err s answer rest] a by auto
  obtain s2 where s2: "code_phase w (py_strip out) user_request s1 = (Inl (SysExit 1), s2)"
    "files s2 = files s1"
    "trace s2 = trace s1 @ [Print InfoGeneratingCode,
            Popen ollama_cmd (code_prompt (py_strip out) user_request),
            PrintErr ErrorOllamaNotFound]"
    using code_phase_not_found a by blast
  have "main w s = (Inl (SysExit 1), s2)"
    using s1(3) s2(1) by (simp add: code_tail_def bind_def)
  then have "run w s = (1, s2)"
    by (rule run_SysExit)
  then show "\<exists>s'. run w s = (1, s') \<and> files s' = files s \<and> writes (trace s') = writes (trace s)
         \<and> trace s' = trace s @ events_to_plan_gate w user_request out err
              @ [Print InfoGeneratingCode,
                 Popen ollama_cmd (code_prompt (py_strip out) user_request),
                 PrintErr ErrorOllamaNotFound]"
    using s1(1,2) s2(2,3) by (simp add: writes_append)
qed

section \<open>The Artifact Store and the Execution Gate\<close>

text \<open>
  C2, as amended. For every path argument, \<open>execute_script\<close> launches the interpreter on
  the absolute path exactly when that path ends with \<open>.py\<close>; otherwise it prints the
  extension error and launches nothing. Whether the file exists is not checked.
\<close>

theorem execute_script_extension_only:
  "execute_script w path s = (r, s') \<Longrightarrow>
     r = Inr ()
   \<and> subprocess_runs (trace s') = subprocess_runs (trace s) @
        (if py_endswith (os_path_abspath (getcwd w) path) ''.py''
         then [[executable w, os_path_abspath (getcwd w) path]] else [])
   \<and> (\<not> py_endswith (os_path_abspath (getcwd w) path) ''.py'' \<longrightarrow>
        s' = s\<lparr>trace := trace s @ [Print (InfoRunning (os_path_abspath (getcwd w) path)),
                                    Print ErrorBadExtension]\<rparr>)"
  by (auto simp: execute_script_cases subprocess_runs_append)

theorem execute_script_extension_only_witness:
  "subprocess_runs (trace (snd (execute_script
       (example_world [] ''/home/user'' example_model (\<lambda>p. None) 0) ''notes.txt''
       (initial_state [])))) = []
   \<and> snd (execute_script
       (example_world [] ''/home/user'' example_model (\<lambda>p. None) 0) ''notes.txt''
       (initial_state []))
     = \<lparr>stdin = [], files = Map.empty,
        trace = [Print (InfoRunning ''/home/user/notes.txt''), Print ErrorBadExtension]\<rparr>
   \<and> subprocess_runs (trace (snd (execute_script
       (example_world [] ''/home/user'' example_model (\<lambda>p. None) 0) ''generated_script.py''
       (initial_state [])))) = [[''/usr/bin/python3'', ''/home/user/generated_script.py'']]"
proof -
  let ?w = "example_world [] ''/home/user'' example_model (\<lambda>p. None) 0"
  have p1: "os_path_abspath ''/home/user'' ''notes.txt'' = ''/home/user/notes.txt''"
    by (simp add: os_path_abspath_def os_path_normpath_def os_path_join_def suffix_def)
  have p2: "os_path_abspath ''/home/user'' ''generated_script.py'' = ''/home/user/generated_script.py''"
    by (simp add: os_path_abspath_def os_path_normpath_def os_path_join_def suffix_def)
  have e1: "\<not> py_endswith ''/home/user/notes.txt'' ''.py''"
    by (simp add: py_endswith_def suffix_def append_eq_Cons_conv)
  have e2: "py_endswith ''/home/user/generated_script.py'' ''.py''"
    using abspath_generated_script[of "''/home/user''"] p2 by simp
  show ?thesis
    using execute_script_extension_only[OF prod.collapse[symmetric],
        of ?w "''notes.txt''" "initial_state []"]
      execute_script_extension_only[OF prod.collapse[symmetric],
        of ?w "''generated_script.py''" "initial_state []"]
      p1 p2 e1 e2
    by (simp add: initial_state_def)
qed

text \<open>
  C2 as stated fails: for a path with the extension whose file does not exist, the
  interpreter is launched all the same.
\<close>

theorem execute_script_extension_only_counterexample:
  "files (initial_state []) ''/home/user/missing.py'' = None
   \<and> execute_script (example_world [] ''/home/user'' example_model (\<lambda>p. None) 2) ''missing.py''
       (initial_state [])
     = (Inr (), \<lparr>stdin = [], files = Map.empty,
          trace = [Print (InfoRunning ''/home/user/missing.py''),
                   SubprocessRun [''/usr/bin/python3'', ''/home/user/missing.py''],
                   Print (ErrorScriptFailed 2)]\<rparr>)"
proof -
  have p: "os_path_abspath ''/home/user'' ''missing.py'' = ''/home/user/missing.py''"
    by (simp add: os_path_abspath_def os_path_normpath_def os_path_join_def suffix_def)
  have e: "py_endswith ''/home/user/missing.py'' ''.py''"
    by (simp add: py_endswith_def suffix_def)
  show ?thesis
    by (simp add: execute_script_def print_def emit_def Let_def p e initial_state_def)
qed

text \<open>
  C3, as amended. \<open>save_code_to_file\<close> opens the absolute path of
  \<open>generated_script.py\<close> in the current working directory, whatever the filename
  argument; a write that succeeds leaves the file holding the code text and a trailing
  newline, whatever it held before.
\<close>

theorem save_code_to_file_fixed_name:
  "save_code_to_file w code_text filename s = (r, s') \<Longrightarrow>
     r = Inr ()
   \<and> writes (trace s') = writes (trace s) @ [os_path_abspath (getcwd w) ''generated_script.py'']
   \<and> (write_fault w (os_path_join (getcwd w) (os_path_abspath (getcwd w) ''generated_script.py''))
        = None \<longrightarrow>
        files s' = (files s)(os_path_join (getcwd w)
            (os_path_abspath (getcwd w) ''generated_script.py'') \<mapsto> Text (code_text @ NL)))"
  by (auto simp: save_code_to_file_eq script_target_def writes_append write_result_def)

theorem save_code_to_file_fixed_name_witness:
  "writes (trace (snd (save_code_to_file
       (example_world [] ''/home/user'' example_model (\<lambda>p. None) 0) ''x = 1'' ''other_name.py''
       \<lparr>stdin = [], files = [''/home/user/generated_script.py'' \<mapsto>
            Text (''print(1)'' @ NL @ ''print(2)'' @ NL)], trace = []\<rparr>)))
     = [''/home/user/generated_script.py'']
   \<and> files (snd (save_code_to_file
       (example_world [] ''/home/user'' example_model (\<lambda>p. None) 0) ''x = 1'' ''other_name.py''
       \<lparr>stdin = [], files = [''/home/user/generated_script.py'' \<mapsto>
            Text (''print(1)'' @ NL @ ''print(2)'' @ NL)], trace = []\<rparr>))
     = [''/home/user/generated_script.py'' \<mapsto> Text (''x = 1'' @ NL)]"
proof -
  let ?w = "example_world [] ''/home/user'' example_model (\<lambda>p. None) 0"
  have p: "os_path_abspath ''/home/user'' ''generated_script.py'' = ''/home/user/generated_script.py''"
    by (simp add: os_path_abspath_def os_path_normpath_def os_path_join_def suffix_def)
  have j: "os_path_join ''/home/user'' ''/home/user/generated_script.py''
      = ''/home/user/generated_script.py''"
    by (simp add: os_path_join_def)
  show ?thesis
    using save_code_to_file_fixed_name[OF prod.collapse[symmetric],
        of ?w "''x = 1''" "''other_name.py''"
        "\<lparr>stdin = [], files = [''/home/user/generated_script.py'' \<mapsto>
            Text (''print(1)'' @ NL @ ''print(2)'' @ NL)], trace = []\<rparr>"]
      p j
    by simp
qed

text \<open>
  C3 as stated fails: the path depends on the working directory.
\<close>

theorem save_code_to_file_fixed_name_counterexample:
  "writes (trace (snd (save_code_to_file
       (example_world [] ''/home/user'' example_model (\<lambda>p. None) 0) ''x = 1''
       ''generated_script.py'' (initial_state []))))
     = [''/home/user/generated_script.py'']
   \<and> writes (trace (snd (save_code_to_file
       (example_world [] ''/srv/app'' example_model (\<lambda>p. None) 0) ''x = 1''
       ''generated_script.py'' (initial_state []))))
     = [''/srv/app/generated_script.py'']
   \<and> ''/home/user/generated_script.py'' \<noteq> ''/srv/app/generated_script.py''"
proof -
  have p1: "os_path_abspath ''/home/user'' ''generated_script.py'' = ''/home/user/generated_script.py''"
    by (simp add: os_path_abspath_def os_path_normpath_def os_path_join_def suffix_def)
  have p2: "os_path_abspath ''/srv/app'' ''generated_script.py'' = ''/srv/app/generated_script.py''"
    by (simp add: os_path_abspath_def os_path_normpath_def os_path_join_def suffix_def)
  show ?thesis
    by (simp add: save_code_to_file_def open_write_def print_def emit_def Let_def p1 p2
        initial_state_def os_path_join_def)
qed

section \<open>The pipeline\<close>

text \<open>
  C4, as amended. When the positional argument is missing, the run prints the usage message
  on standard output and exits with code 1, with no other effect. With a request present,
  the empty string included, the run goes on to the Plan Stage and invokes the model.
\<close>

theorem usage_without_request:
  "(length (argv w) < 2 \<longrightarrow>
      run w s = (1, s\<lparr>trace := trace s @ [Print (Usage (os_path_basename (script_file w)))]\<rparr>))
   \<and> (argv w = prog # user_request # extra \<longrightarrow>
      (\<exists>code s' evs. run w s = (code, s')
         \<and> trace s' = trace s @ [Print (InfoWorkingDir (getcwd w)), Print InfoGeneratingPlan,
              Popen ollama_cmd (plan_prompt user_request)] @ evs))"
proof (intro conjI impI)
  assume "length (argv w) < 2"
  then show "run w s = (1, s\<lparr>trace := trace s @ [Print (Usage (os_path_basename (script_file w)))]\<rparr>)"
    by (simp add: run_def main_def io_defs)
next
  assume a: "argv w = prog # user_request # extra"
  let ?s0 = "emit (Print (InfoWorkingDir (getcwd w))) s"
  obtain r s1 evs where "plan_tail w user_request ?s0 = (r, s1)"
    "trace s1 = trace ?s0 @ [Print InfoGeneratingPlan,
           Popen ollama_cmd (plan_prompt user_request)] @ evs"
    using plan_tail_starts by blast
  then have "main w s = (r, s1)"
    "trace s1 = trace s @ [Print (InfoWorkingDir (getcwd w)), Print InfoGeneratingPlan,
              Popen ollama_cmd (plan_prompt user_request)] @ evs"
    by (simp_all add: main_unfold[OF a] bind_def print_def)
  then show "\<exists>code s' evs. run w s = (code, s')
         \<and> trace s' = trace s @ [Print (InfoWorkingDir (getcwd w)), Print InfoGeneratingPlan,
              Popen ollama_cmd (plan_prompt user_request)] @ evs"
    by (rule run_starts)
qed

theorem usage_without_request_witness:
  "run (example_world [''agent.py''] ''/home/user'' example_model (\<lambda>p. None) 0)
      (initial_state [])
   = (1, \<lparr>stdin = [], files = Map.empty, trace = [Print (Usage ''local_code_ai_agent.py'')]\<rparr>)
   \<and> (\<exists>code s' evs.
        run (example_world [''agent.py'', ''''] ''/home/user'' example_model (\<lambda>p. None) 0)
          (initial_state []) = (code, s')
        \<and> trace s' = [Print (InfoWorkingDir ''/home/user''), Print InfoGeneratingPlan,
              Popen ollama_cmd (plan_prompt '''')] @ evs)"
proof -
  let ?w1 = "example_world [''agent.py''] ''/home/user'' example_model (\<lambda>p. None) 0"
  let ?w2 = "example_world [''agent.py'', ''''] ''/home/user'' example_model (\<lambda>p. None) 0"
  have h1: "length (argv ?w1) < 2" by simp
  have h2: "argv ?w2 = ''agent.py'' # '''' # []" by simp
  have b: "os_path_basename ''/opt/agent/local_code_ai_agent.py'' = ''local_code_ai_agent.py''"
    by (simp add: os_path_basename_def)
  have "run ?w1 (initial_state [])
   = (1, \<lparr>stdin = [], files = Map.empty, trace = [Print (Usage ''local_code_ai_agent.py'')]\<rparr>)"
    using usage_without_request[of ?w1 "initial_state []"] h1 b
    by (simp add: initial_state_def)
  moreover have "\<exists>code s' evs. run ?w2 (initial_state []) = (code, s')
        \<and> trace s' = [Print (InfoWorkingDir ''/home/user''), Print InfoGeneratingPlan,
              Popen ollama_cmd (plan_prompt '''')] @ evs"
    using usage_without_request[of ?w2 "initial_state []" "''agent.py''" "''''" "[]"] h2
    by simp
  ultimately show ?thesis by blast
qed

text \<open>
  C4 as stated fails: an empty-string request is sent to the model and the run ends with
  exit code 0 after the refusal of the plan; and without a request nothing is written to
  standard error.
\<close>

theorem usage_without_request_counterexample:
  "run (example_world [''agent.py'', ''''] ''/home/user'' example_model (\<lambda>p. None) 0)
      (initial_state [''n''])
   = (0, \<lparr>stdin = [], files = Map.empty, trace =
       [Print (InfoWorkingDir ''/home/user''), Print InfoGeneratingPlan,
        Popen ollama_cmd (plan_prompt ''''),
        Print (PlanPhaseOutput example_plan), Ask AskPlan, Print InfoAbortedPlan]\<rparr>)
   \<and> stderr_lines (trace (snd (run
        (example_world [''agent.py''] ''/home/user'' example_model (\<lambda>p. None) 0)
        (initial_state [])))) = []"
proof -
  have n: "py_lower (py_strip ''n'') \<noteq> ''y''"
    by (simp add: py_lower_eq_y py_strip_def py_lstrip_def py_rstrip_def isspace_def)
  show ?thesis
    using n
    by (simp add: run_def main_def io_defs plan_phase_def query_ollama_def
        OLLAMA_MODEL_def ollama_cmd_def initial_state_def Let_def)
qed

text \<open>
  C5. In every run whose first approval response is not an affirmative \<open>y\<close> (after
  trimming and lowercasing), the orchestrator stops with exit code 0 right after the
  abort message: the only model call is the plan call, no file is opened for writing and
  no subprocess is run.
\<close>

theorem abort_after_plan:
  assumes "argv w = prog # user_request # extra"
    and "ollama w ollama_cmd (plan_prompt user_request) = Completed 0 out err"
    and "stdin s = answer # rest"
    and "py_lower (py_strip answer) \<noteq> ''y''"
  shows "\<exists>s'. run w s = (0, s') \<and> stdin s' = rest \<and> files s' = files s
      \<and> trace s' = trace s @ events_to_plan_gate w user_request out err @ [Print InfoAbortedPlan]
      \<and> popens (trace s') = popens (trace s) @ [plan_prompt user_request]
      \<and> writes (trace s') = writes (trace s)
      \<and> subprocess_runs (trace s') = subprocess_runs (trace s)"
proof -
  obtain s1 where s1: "stdin s1 = rest" "files s1 = files s"
    "trace s1 = trace s @ events_to_plan_gate w user_request out err"
    "main w s = (Inl (SysExit 0), emit (Print InfoAbortedPlan) s1)"
    using main_to_plan_gate[OF assms(1,2,3)] assms(4) by auto
  have "run w s = (0, emit (Print InfoAbortedPlan) s1)"
    using s1(4) by (simp add: run_def)
  then show ?thesis
    using s1(1,2,3)
    by (simp add: popens_append writes_append subprocess_runs_append)
qed

theorem abort_after_plan_witness:
  "fst (run (example_world [''agent.py'', example_request] ''/home/user'' example_model
          (\<lambda>p. None) 0) (initial_state [''no''])) = 0
   \<and> trace (snd (run (example_world [''agent.py'', example_request] ''/home/user'' example_model
          (\<lambda>p. None) 0) (initial_state [''no'']))) =
       [Print (InfoWorkingDir ''/home/user''), Print InfoGeneratingPlan,
        Popen ollama_cmd (plan_prompt example_request),
        Print (PlanPhaseOutput example_plan), Ask AskPlan, Print InfoAbortedPlan]"
proof -
  let ?w = "example_world [''agent.py'', example_request] ''/home/user'' example_model
          (\<lambda>p. None) 0"
  have h1: "argv ?w = ''agent.py'' # example_request # []" by simp
  have h2: "ollama ?w ollama_cmd (plan_prompt example_request) = Completed 0 example_plan []"
    by simp
  have h3: "stdin (initial_state [''no'']) = ''no'' # []" by simp
  have h4: "py_lower (py_strip ''no'') \<noteq> ''y''"
    by (simp add: py_lower_eq_y py_strip_def py_lstrip_def py_rstrip_def isspace_def)
  show ?thesis
    using abort_after_plan[OF h1 h2 h3 h4]
    by (auto simp: events_to_plan_gate_def debug_events_def)
qed

text \<open>
  C10. At both approval prompts the response is trimmed and lowercased before it is compared
  with \<open>y\<close>. At the first prompt the run aborts with exit code 0 when the result differs
  from \<open>y\<close> and enters the Code Stage otherwise; at the second it aborts with exit code 0
  when the result differs from \<open>y\<close> and runs the script otherwise. The result is \<open>y\<close>
  exactly for the responses that trim to \<open>y\<close> or \<open>Y\<close>; so \<open>Y\<close> and \<open>y\<close> between
  blanks proceed and \<open>yes\<close> aborts.
\<close>

theorem approval_gates:
  assumes "argv w = prog # user_request # extra"
    and "ollama w ollama_cmd (plan_prompt user_request) = Completed 0 out err"
    and "stdin s = answer # inputs"
  shows
   "(py_lower (py_strip answer) \<noteq> ''y'' \<longrightarrow>
       (\<exists>s'. run w s = (0, s')
          \<and> trace s' = trace s @ events_to_plan_gate w user_request out err
               @ [Print InfoAbortedPlan]))
    \<and> (py_lower (py_strip answer) = ''y'' \<longrightarrow>
       (\<exists>code s' evs. run w s = (code, s')
          \<and> trace s' = trace s @ events_to_plan_gate w user_request out err
               @ [Print InfoGeneratingCode,
                  Popen ollama_cmd (code_prompt (py_strip out) user_request)] @ evs))
    \<and> (py_lower (py_strip answer) = ''y''
        \<and> ollama w ollama_cmd (code_prompt (py_strip out) user_request) = Completed 0 out' err'
        \<and> inputs = answer' # rest \<longrightarrow>
         (py_lower (py_strip answer') \<noteq> ''y'' \<longrightarrow>
            (\<exists>s'. run w s = (0, s')
               \<and> trace s' = trace s @ events_to_plan_gate w user_request out err
                    @ events_to_exec_gate w user_request (py_strip out) out' err'
                    @ [Print InfoAbortedExec]))
         \<and> (py_lower (py_strip answer') = ''y'' \<longrightarrow>
            (\<exists>s' outcome. run w s = (0, s')
               \<and> trace s' = trace s @ events_to_plan_gate w user_request out err
                    @ events_to_exec_gate w user_request (py_strip out) out' err'
                    @ [Print (InfoRunning (script_target w)),
                       SubprocessRun [executable w, script_target w],
                       Print outcome, Print InfoDone])))
    \<and> (py_lower (py_strip answer) = ''y'' \<longleftrightarrow> py_strip answer = ''y'' \<or> py_strip answer = ''Y'')
    \<and> py_lower (py_strip ''Y'') = ''y''
    \<and> py_lower (py_strip ''  y  '') = ''y''
    \<and> py_lower (py_strip ''yes'') \<noteq> ''y''"
proof -
  obtain s1 where s1: "stdin s1 = inputs"
    "trace s1 = trace s @ events_to_plan_gate w user_request out err"
    "main w s =
          (if py_lower (py_strip answer) \<noteq> ''y''
           then (Inl (SysExit 0), emit (Print InfoAbortedPlan) s1)
           else code_tail w (py_strip out) user_request s1)"
    using main_to_plan_gate[OF assms] by blast
  have gate1_no: "\<exists>s'. run w s = (0, s')
          \<and> trace s' = trace s @ events_to_plan_gate w user_request out err
               @ [Print InfoAbortedPlan]"
    if "py_lower (py_strip answer) \<noteq> ''y''"
  proof -
    have "run w s = (0, emit (Print InfoAbortedPlan) s1)"
      using s1(3) that by (simp add: run_def)
    then show ?thesis using s1(2) by simp
  qed
  have gate1_yes: "\<exists>code s' evs. run w s = (code, s')
          \<and> trace s' = trace s @ events_to_plan_gate w user_request out err
               @ [Print InfoGeneratingCode,
                  Popen ollama_cmd (code_prompt (py_strip out) user_request)] @ evs"
    if "py_lower (py_strip answer) = ''y''"
  proof -
    obtain r s2 evs where "code_tail w (py_strip out) user_request s1 = (r, s2)"
      "trace s2 = trace s1 @ [Print InfoGeneratingCode,
           Popen ollama_cmd (code_prompt (py_strip out) user_request)] @ evs"
      using code_tail_starts by blast
    then have "main w s = (r, s2)"
      "trace s2 = trace s @ (events_to_plan_gate w user_request out err
               @ [Print InfoGeneratingCode,
                  Popen ollama_cmd (code_prompt (py_strip out) user_request)]) @ evs"
      using s1(2,3) that by simp_all
    then show ?thesis
      using run_starts[of w s r s2 "events_to_plan_gate w user_request out err
               @ [Print InfoGeneratingCode,
                  Popen ollama_cmd (code_prompt (py_strip out) user_request)]" evs]
      by simp
  qed
  have gate2: "(py_lower (py_strip answer') \<noteq> ''y'' \<longrightarrow>
            (\<exists>s'. run w s = (0, s')
               \<and> trace s' = trace s @ events_to_plan_gate w user_request out err
                    @ events_to_exec_gate w user_request (py_strip out) out' err'
                    @ [Print InfoAbortedExec]))
         \<and> (py_lower (py_strip answer') = ''y'' \<longrightarrow>
            (\<exists>s' outcome. run w s = (0, s')
               \<and> trace s' = trace s @ events_to_plan_gate w user_request out err
                    @ events_to_exec_gate w user_request (py_strip out) out' err'
                    @ [Print (InfoRunning (script_target w)),
                       SubprocessRun [executable w, script_target w],
                       Print outcome, Print InfoDone]))"
    if y: "py_lower (py_strip answer) = ''y''"
      and c: "ollama w ollama_cmd (code_prompt (py_strip out) user_request) = Completed 0 out' err'"
      and i: "inputs = answer' # rest"
  proof -
    have st: "stdin s = answer # answer' # rest"
      using assms(3) i by simp
    obtain s2 where s2:
      "trace s2 = trace s @ events_to_plan_gate w user_request out err
            @ events_to_exec_gate w user_request (py_strip out) out' err'"
      "main w s =
          (if py_lower (py_strip answer') \<noteq> ''y''
           then (Inl (SysExit 0), emit (Print InfoAbortedExec) s2)
           else exec_tail w s2)"
      using main_to_exec_gate[OF assms(1,2) c st y] by blast
    obtain s3 where s3: "exec_tail w s2 = (Inr (), s3)"
      "trace s3 = trace s2 @
         [Print (InfoRunning (script_target w)), SubprocessRun [executable w, script_target w],
          Print (script_outcome (fst (run_python w [executable w, script_target w] (files s2)))),
          Print InfoDone]"
      using exec_tail_result by blast
    show ?thesis
    proof (intro conjI impI)
      assume "py_lower (py_strip answer') \<noteq> ''y''"
      then have "run w s = (0, emit (Print InfoAbortedExec) s2)"
        using s2(2) by (simp add: run_def)
      then show "\<exists>s'. run w s = (0, s')
               \<and> trace s' = trace s @ events_to_plan_gate w user_request out err
                    @ events_to_exec_gate w user_request (py_strip out) out' err'
                    @ [Print InfoAbortedExec]"
        using s2(1) by simp
    next
      assume "py_lower (py_strip answer') = ''y''"
      then have "run w s = (0, s3)"
        using s2(2) s3(1) by (simp add: run_def)
      then show "\<exists>s' outcome. run w s = (0, s')
               \<and> trace s' = trace s @ events_to_plan_gate w user_request out err
                    @ events_to_exec_gate w user_request (py_strip out) out' err'
                    @ [Print (InfoRunning (script_target w)),
                       SubprocessRun [executable w, script_target w],
                       Print outcome, Print InfoDone]"
        using s2(1) s3(2) by simp
    qed
  qed
  show ?thesis
    using gate1_no gate1_yes gate2 py_lower_eq_y[of "py_strip answer"] lower_examples(1,2,3)
    by blast
qed

theorem approval_gates_witness:
  "(\<exists>s'. run (example_world [''agent.py'', example_request] ''/home/user'' example_model
          (\<lambda>p. None) 0) (initial_state [''  Y  '', ''yes'']) = (0, s')
      \<and> trace s' =
       [Print (InfoWorkingDir ''/home/user''), Print InfoGeneratingPlan,
        Popen ollama_cmd (plan_prompt example_request),
        Print (PlanPhaseOutput example_plan), Ask AskPlan,
        Print InfoGeneratingCode,
        Popen ollama_cmd (code_prompt example_plan example_request),
        Print (CodePhaseOutput example_code),
        OpenWrite ''generated_prompt.json'', Print (InfoPromptsSaved ''generated_prompt.json''),
        OpenWrite ''/home/user/generated_script.py'',
        Print (InfoCodeSaved ''/home/user/generated_script.py''),
        Ask (AskExec ''generated_script.py''), Print InfoAbortedExec])
   \<and> py_lower (py_strip ''  Y  '') = ''y''
   \<and> py_lower (py_strip ''yes'') = ''yes''"
proof -
  let ?w = "example_world [''agent.py'', example_request] ''/home/user'' example_model
          (\<lambda>p. None) 0"
  have h1: "argv ?w = ''agent.py'' # example_request # []" by simp
  have h2: "ollama ?w ollama_cmd (plan_prompt example_request) = Completed 0 example_plan []"
    by simp
  have h3: "stdin (initial_state [''  Y  '', ''yes'']) = ''  Y  '' # [''yes'']" by simp
  have y: "py_lower (py_strip ''  Y  '') = ''y''"
    by (simp add: py_lower_eq_y py_strip_def py_lstrip_def py_rstrip_def isspace_def)
  have n: "py_lower (py_strip ''yes'') = ''yes''"
    by (simp add: py_lower_def lower_char_def py_strip_def py_lstrip_def py_rstrip_def isspace_def)
  have c: "ollama ?w ollama_cmd (code_prompt (py_strip example_plan) example_request)
      = Completed 0 example_response []"
    by simp
  show ?thesis
    using approval_gates[OF h1 h2 h3, where out' = example_response and err' = "[]"
        and answer' = "''yes''" and rest = "[]"] y n c
    by (simp add: events_to_plan_gate_def events_to_exec_gate_def debug_events_def)
qed

text \<open>
  C1, as amended. When writing the script file fails, \<open>save_code_to_file\<close> prints the
  error and the run goes on: the orchestrator prompts for the execution approval, runs the
  script path exactly when the response is an affirmative \<open>y\<close>, and exits with code 0.
\<close>

theorem save_failure_does_not_halt:
  assumes "argv w = prog # user_request # extra"
    and "ollama w ollama_cmd (plan_prompt user_request) = Completed 0 out err"
    and "ollama w ollama_cmd (code_prompt (py_strip out) user_request) = Completed 0 out' err'"
    and "stdin s = answer # answer' # rest"
    and "py_lower (py_strip answer) = ''y''"
    and "write_fault w (os_path_join (getcwd w) (script_target w)) = Some fault"
  shows "\<exists>s'. run w s = (0, s')
      \<and> (\<exists>evs. trace s' = trace s @ events_to_plan_gate w user_request out err
            @ events_to_exec_gate w user_request (py_strip out) out' err' @ evs)
      \<and> Print (ErrorWriteCode (script_target w))
           \<in> set (events_to_exec_gate w user_request (py_strip out) out' err')
      \<and> asks (trace s') = asks (trace s) @ [AskPlan, AskExec ''generated_script.py'']
      \<and> subprocess_runs (trace s') = subprocess_runs (trace s) @
           (if py_lower (py_strip answer') = ''y''
            then [[executable w, script_target w]] else [])"
proof -
  let ?E = "events_to_plan_gate w user_request out err
            @ events_to_exec_gate w user_request (py_strip out) out' err'"
  obtain s1 where s1: "trace s1 = trace s @ ?E"
    "main w s =
          (if py_lower (py_strip answer') \<noteq> ''y''
           then (Inl (SysExit 0), emit (Print InfoAbortedExec) s1)
           else exec_tail w s1)"
    using main_to_exec_gate[OF assms(1,2,3,4,5)] by auto
  have logged: "Print (ErrorWriteCode (script_target w))
           \<in> set (events_to_exec_gate w user_request (py_strip out) out' err')"
    using assms(6) by (simp add: events_to_exec_gate_def)
  show ?thesis
  proof (cases "py_lower (py_strip answer') = ''y''")
    case False
    then have "run w s = (0, emit (Print InfoAbortedExec) s1)"
      using s1(2) by (simp add: run_def)
    then show ?thesis
      using s1(1) logged False
      by (simp add: asks_append subprocess_runs_append)
  next
    case True
    obtain s2 where s2: "exec_tail w s1 = (Inr (), s2)"
      "trace s2 = trace s1 @
         [Print (InfoRunning (script_target w)), SubprocessRun [executable w, script_target w],
          Print (script_outcome (fst (run_python w [executable w, script_target w] (files s1)))),
          Print InfoDone]"
      using exec_tail_result by blast
    have "run w s = (0, s2)"
      using s1(2) s2(1) True by (simp add: run_def)
    then show ?thesis
      using s1(1) s2(2) logged True
      by (simp add: asks_append subprocess_runs_append)
  qed
qed

theorem save_failure_does_not_halt_witness:
  "fst (run (example_world [''agent.py'', example_request] ''/home/user'' example_model
          script_unwritable 0) (initial_state [''y'', ''n''])) = 0
   \<and> asks (trace (snd (run (example_world [''agent.py'', example_request] ''/home/user''
          example_model script_unwritable 0) (initial_state [''y'', ''n''])))) =
       [AskPlan, AskExec ''generated_script.py'']
   \<and> subprocess_runs (trace (snd (run (example_world [''agent.py'', example_request]
          ''/home/user'' example_model script_unwritable 0) (initial_state [''y'', ''n''])))) = []"
proof -
  let ?w = "example_world [''agent.py'', example_request] ''/home/user'' example_model
          script_unwritable 0"
  have h1: "argv ?w = ''agent.py'' # example_request # []" by simp
  have h2: "ollama ?w ollama_cmd (plan_prompt example_request) = Completed 0 example_plan []"
    by simp
  have h3: "ollama ?w ollama_cmd (code_prompt (py_strip example_plan) example_request)
      = Completed 0 example_response []"
    by simp
  have h4: "stdin (initial_state [''y'', ''n'']) = ''y'' # ''n'' # []" by simp
  have h5: "py_lower (py_strip ''y'') = ''y''"
    by (simp add: py_lower_eq_y py_strip_def py_lstrip_def py_rstrip_def isspace_def)
  have h6: "write_fault ?w (os_path_join (getcwd ?w) (script_target ?w)) = Some OpenError"
    by (simp add: script_unwritable_def os_path_join_def)
  have n: "py_lower (py_strip ''n'') \<noteq> ''y''"
    by (simp add: py_lower_eq_y py_strip_def py_lstrip_def py_rstrip_def isspace_def)
  show ?thesis
    using save_failure_does_not_halt[OF h1 h2 h3 h4 h5 h6] n
    by auto
qed

text \<open>
  C1 as stated fails: with the script file unwritable and both responses \<open>y\<close>, the run
  prompts for the execution approval and launches the interpreter on the script path.
\<close>

theorem save_failure_does_not_halt_counterexample:
  "write_fault (example_world [''agent.py'', example_request] ''/home/user'' example_model
       script_unwritable 0) ''/home/user/generated_script.py'' = Some OpenError
   \<and> run (example_world [''agent.py'', example_request] ''/home/user'' example_model
          script_unwritable 0) (initial_state [''y'', ''y'']) =
     (0, \<lparr>stdin = [], files = [''/home/user/generated_prompt.json'' \<mapsto>
             Json [(''user_request'', example_request), (''plan'', example_plan),
                   (''generated_code'', example_code)]],
          trace =
       [Print (InfoWorkingDir ''/home/user''), Print InfoGeneratingPlan,
        Popen ollama_cmd (plan_prompt example_request),
        Print (PlanPhaseOutput example_plan), Ask AskPlan,
        Print InfoGeneratingCode,
        Popen ollama_cmd (code_prompt example_plan example_request),
        Print (CodePhaseOutput example_code),
        OpenWrite ''generated_prompt.json'', Print (InfoPromptsSaved ''generated_prompt.json''),
        OpenWrite ''/home/user/generated_script.py'',
        Print (ErrorWriteCode ''/home/user/generated_script.py''),
        Ask (AskExec ''generated_script.py''),
        Print (InfoRunning ''/home/user/generated_script.py''),
        SubprocessRun [''/usr/bin/python3'', ''/home/user/generated_script.py''],
        Print InfoScriptOk, Print InfoDone]\<rparr>)"
proof -
  have y: "py_lower (py_strip ''y'') = ''y''"
    by (simp add: py_lower_eq_y py_strip_def py_lstrip_def py_rstrip_def isspace_def)
  have p: "os_path_abspath ''/home/user'' ''generated_script.py'' = ''/home/user/generated_script.py''"
    by (simp add: os_path_abspath_def os_path_normpath_def os_path_join_def suffix_def)
  show ?thesis
    by (simp add: run_def main_def io_defs plan_phase_def code_phase_def query_ollama_def
        save_prompt_to_file_def save_code_to_file_def open_write_def execute_script_def
        py_endswith_def OLLAMA_MODEL_def ollama_cmd_def y p script_unwritable_def
        os_path_join_def initial_state_def suffix_def Let_def)
qed

text \<open>
  C6. In every run with both approvals affirmative in which the subprocess of the
  generated script exits with a non-zero code, the failing code is printed, then the
  closing message of \<open>main\<close>, and the host process exits with code 0.
\<close>

theorem done_after_failing_script:
  assumes "argv w = prog # user_request # extra"
    and "ollama w ollama_cmd (plan_prompt user_request) = Completed 0 out err"
    and "ollama w ollama_cmd (code_prompt (py_strip out) user_request) = Completed 0 out' err'"
    and "stdin s = answer # answer' # rest"
    and "py_lower (py_strip answer) = ''y''"
    and "py_lower (py_strip answer') = ''y''"
    and "fst (run_python w [executable w, script_target w]
            (persisted_files w user_request (py_strip out) (clean_code (py_strip out')) (files s)))
         = Returned returncode"
    and "returncode \<noteq> 0"
  shows "\<exists>s'. run w s = (0, s')
      \<and> trace s' = trace s @ events_to_plan_gate w user_request out err
            @ events_to_exec_gate w user_request (py_strip out) out' err'
            @ [Print (InfoRunning (script_target w)),
               SubprocessRun [executable w, script_target w],
               Print (ErrorScriptFailed returncode), Print InfoDone]"
proof -
  obtain s1 where s1:
    "trace s1 = trace s @ events_to_plan_gate w user_request out err
            @ events_to_exec_gate w user_request (py_strip out) out' err'"
    "main w s = exec_tail w s1"
    "files s1 = persisted_files w user_request (py_strip out) (clean_code (py_strip out'))
            (files s)"
    using main_to_exec_gate[OF assms(1,2,3,4,5)] assms(6) by auto
  obtain s2 where s2: "exec_tail w s1 = (Inr (), s2)"
    "trace s2 = trace s1 @
         [Print (InfoRunning (script_target w)), SubprocessRun [executable w, script_target w],
          Print (script_outcome (fst (run_python w [executable w, script_target w] (files s1)))),
          Print InfoDone]"
    using exec_tail_result by blast
  have "run w s = (0, s2)"
    using s1(2) s2(1) by (simp add: run_def)
  moreover have "script_outcome (fst (run_python w [executable w, script_target w] (files s1)))
      = ErrorScriptFailed returncode"
    using assms(7,8) s1(3) by (simp add: script_outcome_def)
  ultimately show ?thesis
    using s1(1) s2(2) by simp
qed

theorem done_after_failing_script_witness:
  "fst (run (example_world [''agent.py'', example_request] ''/home/user'' example_model
          (\<lambda>p. None) 3) (initial_state [''y'', ''Y''])) = 0
   \<and> trace (snd (run (example_world [''agent.py'', example_request] ''/home/user'' example_model
          (\<lambda>p. None) 3) (initial_state [''y'', ''Y'']))) =
       [Print (InfoWorkingDir ''/home/user''), Print InfoGeneratingPlan,
        Popen ollama_cmd (plan_prompt example_request),
        Print (PlanPhaseOutput example_plan), Ask AskPlan,
        Print InfoGeneratingCode,
        Popen ollama_cmd (code_prompt example_plan example_request),
        Print (CodePhaseOutput example_code),
        OpenWrite ''generated_prompt.json'', Print (InfoPromptsSaved ''generated_prompt.json''),
        OpenWrite ''/home/user/generated_script.py'',
        Print (InfoCodeSaved ''/home/user/generated_script.py''),
        Ask (AskExec ''generated_script.py''),
        Print (InfoRunning ''/home/user/generated_script.py''),
        SubprocessRun [''/usr/bin/python3'', ''/home/user/generated_script.py''],
        Print (ErrorScriptFailed 3), Print InfoDone]"
proof -
  let ?w = "example_world [''agent.py'', example_request] ''/home/user'' example_model
          (\<lambda>p. None) 3"
  have h1: "argv ?w = ''agent.py'' # example_request # []" by simp
  have h2: "ollama ?w ollama_cmd (plan_prompt example_request) = Completed 0 example_plan []"
    by simp
  have h3: "ollama ?w ollama_cmd (code_prompt (py_strip example_plan) example_request)
      = Completed 0 example_response []"
    by simp
  have h4: "stdin (initial_state [''y'', ''Y'']) = ''y'' # ''Y'' # []" by simp
  have h5: "py_lower (py_strip ''y'') = ''y''"
    by (simp add: py_lower_eq_y py_strip_def py_lstrip_def py_rstrip_def isspace_def)
  have h6: "py_lower (py_strip ''Y'') = ''y''"
    by (simp add: py_lower_eq_y py_strip_def py_lstrip_def py_rstrip_def isspace_def)
  have h7: "fst (run_python ?w [executable ?w, script_target ?w]
            (persisted_files ?w example_request (py_strip example_plan)
               (clean_code (py_strip example_response)) (files (initial_state [''y'', ''Y'']))))
         = Returned 3"
    by simp
  have h8: "(3::int) \<noteq> 0" by simp
  show ?thesis
    using done_after_failing_script[OF h1 h2 h3 h4 h5 h6 h7 h8]
    by (auto simp: events_to_plan_gate_def events_to_exec_gate_def debug_events_def)
qed

text \<open>
  C7. In every run in which the model runner cannot be located (\<open>Popen\<close> raises
  \<open>FileNotFoundError\<close>, and \<open>query_ollama\<close> prints its message for it), the orchestrator
  exits with code 1, no file is opened for writing in the run and the files are as they
  were. The error arises at the plan call or, after an approved plan, at the code call, and
  the run ends right after the message.
\<close>

theorem model_runner_not_found:
  "(run w s = (code, s') \<and> trace s' = trace s @ evs
      \<and> PrintErr ErrorOllamaNotFound \<in> set evs \<longrightarrow>
      code = 1 \<and> writes evs = [] \<and> files s' = files s)
   \<and> (argv w = prog # user_request # extra
      \<and> ollama w ollama_cmd (plan_prompt user_request) = PopenNotFound \<longrightarrow>
      (\<exists>s1. run w s = (1, s1) \<and> files s1 = files s \<and> writes (trace s1) = writes (trace s)
         \<and> trace s1 = trace s @ [Print (InfoWorkingDir (getcwd w)), Print InfoGeneratingPlan,
              Popen ollama_cmd (plan_prompt user_request), PrintErr ErrorOllamaNotFound]))
   \<and> (argv w = prog # user_request # extra
      \<and> ollama w ollama_cmd (plan_prompt user_request) = Completed 0 out err
      \<and> stdin s = answer # rest \<and> py_lower (py_strip answer) = ''y''
      \<and> ollama w ollama_cmd (code_prompt (py_strip out) user_request) = PopenNotFound \<longrightarrow>
      (\<exists>s1. run w s = (1, s1) \<and> files s1 = files s \<and> writes (trace s1) = writes (trace s)
         \<and> trace s1 = trace s @ events_to_plan_gate w user_request out err
              @ [Print InfoGeneratingCode,
                 Popen ollama_cmd (code_prompt (py_strip out) user_request),
                 PrintErr ErrorOllamaNotFound]))"
  using not_found_is_fatal[of w s code s' evs]
    not_found_at_call[of w prog user_request extra s out err answer rest]
  by blast

theorem model_runner_not_found_witness:
  "fst (run (example_world [''agent.py'', example_request] ''/home/user'' missing_model
          (\<lambda>p. None) 0) (initial_state [''y'', ''y''])) = 1
   \<and> trace (snd (run (example_world [''agent.py'', example_request] ''/home/user''
          missing_model (\<lambda>p. None) 0) (initial_state [''y'', ''y'']))) =
       [Print (InfoWorkingDir ''/home/user''), Print InfoGeneratingPlan,
        Popen ollama_cmd (plan_prompt example_request), PrintErr ErrorOllamaNotFound]
   \<and> files (snd (run (example_world [''agent.py'', example_request] ''/home/user''
          missing_model (\<lambda>p. None) 0) (initial_state [''y'', ''y'']))) = Map.empty
   \<and> fst (run (example_world [''agent.py'', example_request] ''/home/user'' vanishing_model
          (\<lambda>p. None) 0) (initial_state [''y'', ''y''])) = 1
   \<and> trace (snd (run (example_world [''agent.py'', example_request] ''/home/user''
          vanishing_model (\<lambda>p. None) 0) (initial_state [''y'', ''y'']))) =
       [Print (InfoWorkingDir ''/home/user''), Print InfoGeneratingPlan,
        Popen ollama_cmd (plan_prompt example_request),
        Print (PlanPhaseOutput example_plan), Ask AskPlan,
        Print InfoGeneratingCode,
        Popen ollama_cmd (code_prompt example_plan example_request),
        PrintErr ErrorOllamaNotFound]
   \<and> files (snd (run (example_world [''agent.py'', example_request] ''/home/user''
          vanishing_model (\<lambda>p. None) 0) (initial_state [''y'', ''y'']))) = Map.empty"
proof -
  let ?w1 = "example_world [''agent.py'', example_request] ''/home/user'' missing_model
          (\<lambda>p. None) 0"
  let ?w2 = "example_world [''agent.py'', example_request] ''/home/user'' vanishing_model
          (\<lambda>p. None) 0"
  let ?s = "initial_state [''y'', ''y'']"
  let ?e1 = "[Print (InfoWorkingDir ''/home/user''), Print InfoGeneratingPlan,
        Popen ollama_cmd (plan_prompt example_request), PrintErr ErrorOllamaNotFound]"
  let ?e2 = "[Print (InfoWorkingDir ''/home/user''), Print InfoGeneratingPlan,
        Popen ollama_cmd (plan_prompt example_request),
        Print (PlanPhaseOutput example_plan), Ask AskPlan,
        Print InfoGeneratingCode,
        Popen ollama_cmd (code_prompt example_plan example_request),
        PrintErr ErrorOllamaNotFound]"
  have a1: "argv ?w1 = ''agent.py'' # example_request # []" by simp
  have a2: "argv ?w2 = ''agent.py'' # example_request # []" by simp
  have n1: "ollama ?w1 ollama_cmd (plan_prompt example_request) = PopenNotFound"
    by (simp add: missing_model_def)
  have n2: "ollama ?w2 ollama_cmd (plan_prompt example_request) = Completed 0 example_plan []
        \<and> stdin ?s = ''y'' # [''y''] \<and> py_lower (py_strip ''y'') = ''y''
        \<and> ollama ?w2 ollama_cmd (code_prompt (py_strip example_plan) example_request) = PopenNotFound"
    by (simp add: py_lower_eq_y py_strip_def py_lstrip_def py_rstrip_def isspace_def)
  obtain s1 where s1: "run ?w1 ?s = (1, s1)" "trace s1 = trace ?s @ ?e1"
    using model_runner_not_found[where w = ?w1 and s = ?s
        and prog = "''agent.py''" and user_request = example_request and extra = "[]",
        THEN conjunct2, THEN conjunct1] a1 n1
    by auto
  have f1: "files s1 = files ?s"
    using model_runner_not_found[where w = ?w1 and s = ?s and code = 1
        and s' = s1 and evs = ?e1, THEN conjunct1] s1
    by simp
  obtain s2 where s2: "run ?w2 ?s = (1, s2)" "trace s2 = trace ?s @ ?e2"
    using model_runner_not_found[where w = ?w2 and s = ?s
        and prog = "''agent.py''" and user_request = example_request and extra = "[]"
        and out = example_plan and err = "[]" and answer = "''y''" and rest = "[''y'']",
        THEN conjunct2, THEN conjunct2] a2 n2
    by (auto simp: events_to_plan_gate_def debug_events_def)
  have f2: "files s2 = files ?s"
    using model_runner_not_found[where w = ?w2 and s = ?s and code = 1
        and s' = s2 and evs = ?e2, THEN conjunct1] s2
    by simp
  show ?thesis
    using s1 f1 s2 f2 by simp
qed

end
